theory Spec2Isabelle
  imports Main
begin

section \<open>Go values, panics and errors\<close>

text \<open>
  The resource handler of \<^verbatim>\<open>bigip/resource_bigip_ltm_node.go\<close> is embedded function by
  function. A Go \<^verbatim>\<open>error\<close> is a value: \<open>RemoteError\<close> is whatever the go-bigip client
  hands back, \<open>StateError\<close> is an error of \<^verbatim>\<open>d.Set\<close> (wrapped by \<^verbatim>\<open>fmt.Errorf\<close> in read).
  A run-time panic (a failed type assertion, an index out of range) is a result of its own,
  distinct from a returned error.
\<close>

datatype error = RemoteError string | StateError string

text \<open>The dynamically typed \<^verbatim>\<open>interface{}\<close> that \<^verbatim>\<open>d.Get\<close> returns.\<close>

datatype val = VNil | VStr string | VInt int

datatype 'a go = Panics string | Val 'a

text \<open>The type assertions \<^verbatim>\<open>x.(string)\<close> and \<^verbatim>\<open>x.(int)\<close>: they panic on any other dynamic type.\<close>

definition as_string :: "val \<Rightarrow> string go" where
  "as_string v = (case v of VStr s \<Rightarrow> Val s | _ \<Rightarrow> Panics ''interface conversion: not string'')"

definition as_int :: "val \<Rightarrow> int go" where
  "as_int v = (case v of VInt i \<Rightarrow> Val i | _ \<Rightarrow> Panics ''interface conversion: not int'')"

text \<open>Slice indexing \<^verbatim>\<open>xs[i]\<close>: out of range is a panic.\<close>

definition index :: "'a list \<Rightarrow> nat \<Rightarrow> 'a go" where
  "index xs i = (if i < length xs then Val (xs ! i) else Panics ''index out of range'')"

section \<open>Regular expressions as package regexp matches them\<close>

text \<open>
  The two patterns of the file are transcribed into a syntax tree and run by a backtracking
  matcher that lists the ways a pattern can match at a position in the order of preference
  of Go's leftmost-first semantics: the left branch of an alternation before the right
  one, one more iteration of a (greedy) repetition before stopping. A Go string is the
  list of its bytes. Package regexp reads it one UTF-8 code point (rune) at a time, and a
  byte that begins no well-formed encoding as a rune of width one. None of the patterns
  sets a flag, so \<^verbatim>\<open>.\<close> is any rune but the newline, \<^verbatim>\<open>^\<close> is the beginning of the text
  and \<^verbatim>\<open>$\<close> its end. The literals and classes of the two patterns are ASCII, and an
  ASCII byte is always a rune of its own, so they are compared with the byte at hand. A
  star does not repeat an iteration that read nothing; the starred parts of the two
  patterns read one rune each time.
\<close>

datatype re =
    Epsilon
  | Lit char
  | AnyNL
  | CharRange char char
  | Digit
  | Bol
  | Eol
  | Seq re re
  | Alt re re
  | Opt re
  | Star re
  | Group nat re

text \<open>
  A matcher state: are we at the beginning of the text, the text still to read, and the
  capture groups matched so far.
\<close>

type_synonym caps = "nat \<Rightarrow> string option"
type_synonym mst = "bool \<times> string \<times> caps"

definition newline :: char where
  "newline = CHR 0x0A"

definition in_range :: "char \<Rightarrow> char \<Rightarrow> char \<Rightarrow> bool" where
  "in_range lo hi x \<longleftrightarrow> (of_char lo :: nat) \<le> of_char x \<and> (of_char x :: nat) \<le> of_char hi"

definition step_char :: "(char \<Rightarrow> bool) \<Rightarrow> mst \<Rightarrow> mst list" where
  "step_char p st =
     (case fst (snd st) of
        [] \<Rightarrow> []
      | x # xs \<Rightarrow> if p x then [(False, xs, snd (snd st))] else [])"

text \<open>
  The width in bytes of the rune at the head of a string, as \<^verbatim>\<open>utf8.DecodeRuneInString\<close>
  reports it: the first byte gives the length of the encoding and the range its second
  byte must lie in, the further bytes must be continuation bytes, and anything else (a
  stray continuation byte, an overlong or truncated encoding, a surrogate, a byte above
  0xF4) is the error rune of width one.
\<close>

definition cont :: "char \<Rightarrow> bool" where
  "cont c \<longleftrightarrow> (0x80 :: nat) \<le> of_char c \<and> (of_char c :: nat) \<le> 0xBF"

definition decode_width :: "nat \<Rightarrow> nat \<Rightarrow> nat \<Rightarrow> string \<Rightarrow> nat" where
  "decode_width sz lo hi s =
     (if length s < sz then 1
      else if lo \<le> of_char (s ! 1) \<and> (of_char (s ! 1) :: nat) \<le> hi then
        (if sz \<le> 2 then 2
         else if cont (s ! 2) then
           (if sz \<le> 3 then 3
            else if cont (s ! 3) then 4 else 1)
         else 1)
      else 1)"

definition rune_width :: "string \<Rightarrow> nat" where
  "rune_width s =
     (case s of
        [] \<Rightarrow> 0
      | b0 # _ \<Rightarrow>
          if (of_char b0 :: nat) < 0x80 then 1
          else if (0xC2 :: nat) \<le> of_char b0 \<and> (of_char b0 :: nat) \<le> 0xDF then decode_width 2 0x80 0xBF s
          else if (of_char b0 :: nat) = 0xE0 then decode_width 3 0xA0 0xBF s
          else if (0xE1 :: nat) \<le> of_char b0 \<and> (of_char b0 :: nat) \<le> 0xEC then decode_width 3 0x80 0xBF s
          else if (of_char b0 :: nat) = 0xED then decode_width 3 0x80 0x9F s
          else if (0xEE :: nat) \<le> of_char b0 \<and> (of_char b0 :: nat) \<le> 0xEF then decode_width 3 0x80 0xBF s
          else if (of_char b0 :: nat) = 0xF0 then decode_width 4 0x90 0xBF s
          else if (0xF1 :: nat) \<le> of_char b0 \<and> (of_char b0 :: nat) \<le> 0xF3 then decode_width 4 0x80 0xBF s
          else if (of_char b0 :: nat) = 0xF4 then decode_width 4 0x80 0x8F s
          else 1)"

text \<open>One step of \<^verbatim>\<open>.\<close>: the rune at hand, whatever its width, unless it is the newline.\<close>

definition step_any :: "mst \<Rightarrow> mst list" where
  "step_any st =
     (case fst (snd st) of
        [] \<Rightarrow> []
      | x # xs \<Rightarrow>
          if x = newline then []
          else [(False, drop (rune_width (x # xs) - 1) xs, snd (snd st))])"

function ms :: "re \<Rightarrow> mst \<Rightarrow> mst list" where
  "ms Epsilon st = [st]"
| "ms (Lit c) st = step_char (\<lambda>x. x = c) st"
| "ms AnyNL st = step_any st"
| "ms (CharRange lo hi) st = step_char (in_range lo hi) st"
| "ms Digit st = step_char (in_range (CHR ''0'') (CHR ''9'')) st"
| "ms Bol st = (if fst st then [st] else [])"
| "ms Eol st = (if fst (snd st) = [] then [st] else [])"
| "ms (Seq r1 r2) st = concat (map (ms r2) (ms r1 st))"
| "ms (Alt r1 r2) st = ms r1 st @ ms r2 st"
| "ms (Opt r) st = ms r st @ [st]"
| "ms (Star r) st =
     concat (map (\<lambda>st'. if length (fst (snd st')) < length (fst (snd st))
                          then ms (Star r) st' else [])
                 (ms r st)) @ [st]"
| "ms (Group n r) st =
     map (\<lambda>st'. (fst st', fst (snd st'),
                  (snd (snd st'))(n \<mapsto> take (length (fst (snd st)) - length (fst (snd st')))
                                            (fst (snd st)))))
         (ms r st)"
  by pat_completeness auto
termination
  by (relation "measures [\<lambda>(r, st). size r, \<lambda>(r, st). length (fst (snd st))]") auto

text \<open>
  Counted repetition \<^verbatim>\<open>r{lo,hi}\<close> is \<open>lo\<close> copies of \<open>r\<close> followed by \<open>hi - lo\<close> nested
  optional copies, and \<^verbatim>\<open>r+\<close> is \<^verbatim>\<open>rr*\<close>.
\<close>

fun copies :: "nat \<Rightarrow> re \<Rightarrow> re" where
  "copies 0 r = Epsilon"
| "copies (Suc n) r = Seq r (copies n r)"

fun upto_copies :: "nat \<Rightarrow> re \<Rightarrow> re" where
  "upto_copies 0 r = Epsilon"
| "upto_copies (Suc n) r = Opt (Seq r (upto_copies n r))"

definition Repeat :: "nat \<Rightarrow> nat \<Rightarrow> re \<Rightarrow> re" where
  "Repeat lo hi r = Seq (copies lo r) (upto_copies (hi - lo) r)"

definition OneOrMore :: "re \<Rightarrow> re" where
  "OneOrMore r = Seq r (Star r)"

text \<open>
  An unanchored search: the leftmost position at which the pattern matches, and there the
  preferred match. The positions tried are the beginnings of the runes of the text and
  its end. The result is the text from the start of the match and the matcher state at
  its end.
\<close>

fun search :: "re \<Rightarrow> bool \<Rightarrow> string \<Rightarrow> (string \<times> mst) option" where
  "search r b s =
     (case ms r (b, s, Map.empty) of
        st # _ \<Rightarrow> Some (s, st)
      | [] \<Rightarrow> (case s of
                 [] \<Rightarrow> None
               | x # xs \<Rightarrow> search r False (drop (rune_width (x # xs) - 1) xs)))"

definition MatchString :: "re \<Rightarrow> string \<Rightarrow> bool" where
  "MatchString r s \<longleftrightarrow> search r True s \<noteq> None"

text \<open>
  \<^verbatim>\<open>FindStringSubmatch\<close> returns the match and the text of each of the \<open>ngroups\<close> groups
  (empty for a group that took no part), or the nil slice when nothing matches.
\<close>

definition FindStringSubmatch :: "re \<Rightarrow> nat \<Rightarrow> string \<Rightarrow> string list" where
  "FindStringSubmatch r ngroups s =
     (case search r True s of
        None \<Rightarrow> []
      | Some (start, st) \<Rightarrow>
          take (length start - length (fst (snd st))) start #
          map (\<lambda>i. case snd (snd st) i of None \<Rightarrow> [] | Some g \<Rightarrow> g) [1..<Suc ngroups])"

text \<open>
  The pattern of create (line 125) and update (line 240), the same literal twice:
  \<^verbatim>\<open>^((?:[0-9]{1,3}.){3}[0-9]{1,3})|(.*:.*)$\<close>. The dot between the digit groups is not
  escaped, and the alternation binds weakest: \<^verbatim>\<open>^\<close> belongs to the left branch only,
  \<^verbatim>\<open>$\<close> to the right one only.
\<close>

definition classify_re :: re where
  "classify_re =
     Alt (Seq Bol (Group 1 (Seq (Repeat 3 3 (Seq (Repeat 1 3 (CharRange (CHR ''0'') (CHR ''9''))) AnyNL))
                                (Repeat 1 3 (CharRange (CHR ''0'') (CHR ''9''))))))
         (Seq (Group 2 (Seq (Star AnyNL) (Seq (Lit (CHR '':'')) (Star AnyNL)))) Eol)"

text \<open>
  The pattern of read (line 195):
  \<^verbatim>\<open>((?:[0-9]{1,3}\.){3}[0-9]{1,3})(?:\%\d+)?\<close>, with one capture group.
\<close>

definition extract_re :: re where
  "extract_re =
     Seq (Group 1 (Seq (Repeat 3 3 (Seq (Repeat 1 3 (CharRange (CHR ''0'') (CHR ''9''))) (Lit (CHR ''.''))))
                       (Repeat 1 3 (CharRange (CHR ''0'') (CHR ''9'')))))
         (Opt (Seq (Lit (CHR ''%'')) (OneOrMore Digit)))"

text \<open>
  The classification pattern as the specification words it,
  \<^verbatim>\<open>^((\d{1,3}\.){3}\d{1,3})|(.*:.*)$\<close>: the dots between the digit groups are literal
  dots. It is compared with \<open>classify_re\<close> below and is no part of the program.
\<close>

definition spec_classify_re :: re where
  "spec_classify_re =
     Alt (Seq Bol (Group 1 (Seq (Repeat 3 3 (Group 2 (Seq (Repeat 1 3 Digit) (Lit (CHR ''.'')))))
                                (Repeat 1 3 Digit))))
         (Seq (Group 3 (Seq (Star AnyNL) (Seq (Lit (CHR '':'')) (Star AnyNL)))) Eol)"

section \<open>The resource data and its schema\<close>

text \<open>
  One block of the \<^verbatim>\<open>fqdn\<close> list and the resource data \<^verbatim>\<open>d\<close>: a field is \<open>None\<close> while
  nothing has been configured or set for it. The keys, types and defaults are those of the
  schema in \<^verbatim>\<open>resourceBigipLtmNode\<close>. The field \<open>Id'\<close> is what \<^verbatim>\<open>d.Id()\<close> returns and
  \<^verbatim>\<open>d.SetId\<close> sets (the name \<open>Id\<close> is taken by the identity relation).
\<close>

record fqdn_block =
  address_family :: "string option"
  fqdn_name :: "string option"
  interval :: "string option"
  down_interval :: "int option"
  autopopulate :: "string option"

record ResourceData =
  Id' :: string
  name :: "string option"
  address :: "string option"
  rate_limit :: "string option"
  connection_limit :: "int option"
  dynamic_ratio :: "int option"
  ratio :: "int option"
  monitor :: "string option"
  state :: "string option"
  fqdn :: "fqdn_block list"

definition str_or :: "string \<Rightarrow> string option \<Rightarrow> val" where
  "str_or dflt x = VStr (case x of None \<Rightarrow> dflt | Some v \<Rightarrow> v)"

definition int_or :: "int \<Rightarrow> int option \<Rightarrow> val" where
  "int_or dflt x = VInt (case x of None \<Rightarrow> dflt | Some v \<Rightarrow> v)"

text \<open>
  \<^verbatim>\<open>d.Get(key)\<close> for the top-level keys: the value set, else the schema's default, else the
  zero value of the declared type; \<^verbatim>\<open>fqdn.#\<close> is the number of blocks. The library
  documents \<^verbatim>\<open>Get\<close> as returning "the data for the given key, or nil if the key doesn't
  exist in the schema": a key that the schema does not declare has no type to take a zero
  value from.
\<close>

definition Get :: "ResourceData \<Rightarrow> string \<Rightarrow> val" where
  "Get d key =
     (if key = ''name'' then str_or [] (name d)
      else if key = ''address'' then str_or [] (address d)
      else if key = ''rate_limit'' then str_or [] (rate_limit d)
      else if key = ''connection_limit'' then int_or 0 (connection_limit d)
      else if key = ''dynamic_ratio'' then int_or 0 (dynamic_ratio d)
      else if key = ''ratio'' then int_or 1 (ratio d)
      else if key = ''monitor'' then str_or [] (monitor d)
      else if key = ''state'' then str_or ''user-up'' (state d)
      else if key = ''fqdn.#'' then VInt (int (length (fqdn d)))
      else VNil)"

text \<open>The attributes of one \<^verbatim>\<open>fqdn\<close> block, by the key the schema declares them under.\<close>

definition fqdn_attr :: "fqdn_block \<Rightarrow> string \<Rightarrow> val" where
  "fqdn_attr b key =
     (if key = ''address_family'' then str_or [] (address_family b)
      else if key = ''name'' then str_or [] (fqdn_name b)
      else if key = ''interval'' then str_or ''3600'' (interval b)
      else if key = ''down_interval'' then int_or 5 (down_interval b)
      else if key = ''autopopulate'' then str_or ''disabled'' (autopopulate b)
      else VNil)"

text \<open>
  \<^verbatim>\<open>d.Get(fmt.Sprintf("fqdn.%d", i) + "." + key)\<close>: attribute \<open>key\<close> of block \<open>i\<close>. The loop
  of create only asks for blocks below \<^verbatim>\<open>fqdn.#\<close>.
\<close>

definition Get_fqdn :: "ResourceData \<Rightarrow> int \<Rightarrow> string \<Rightarrow> val" where
  "Get_fqdn d i key =
     (if 0 \<le> i \<and> i < int (length (fqdn d)) then fqdn_attr (fqdn d ! nat i) key
      else fqdn_attr \<lparr>address_family = None, fqdn_name = None, interval = None,
                      down_interval = None, autopopulate = None\<rparr> key)"

text \<open>
  \<^verbatim>\<open>d.Set(key, value)\<close> stores a value of the declared type under a declared key, and
  returns an error otherwise.
\<close>

definition Set :: "ResourceData \<Rightarrow> string \<Rightarrow> val \<Rightarrow> error option \<times> ResourceData" where
  "Set d key v =
     (case v of
        VStr s \<Rightarrow>
          if key = ''name'' then (None, d\<lparr>name := Some s\<rparr>)
          else if key = ''address'' then (None, d\<lparr>address := Some s\<rparr>)
          else if key = ''rate_limit'' then (None, d\<lparr>rate_limit := Some s\<rparr>)
          else if key = ''monitor'' then (None, d\<lparr>monitor := Some s\<rparr>)
          else if key = ''state'' then (None, d\<lparr>state := Some s\<rparr>)
          else (Some (StateError key), d)
      | VInt i \<Rightarrow>
          if key = ''connection_limit'' then (None, d\<lparr>connection_limit := Some i\<rparr>)
          else if key = ''dynamic_ratio'' then (None, d\<lparr>dynamic_ratio := Some i\<rparr>)
          else if key = ''ratio'' then (None, d\<lparr>ratio := Some i\<rparr>)
          else (Some (StateError key), d)
      | VNil \<Rightarrow> (Some (StateError key), d))"

definition SetId :: "ResourceData \<Rightarrow> string \<Rightarrow> ResourceData" where
  "SetId d v = d\<lparr>Id' := v\<rparr>"

section \<open>The remote API client\<close>

text \<open>
  The fields of \<^verbatim>\<open>bigip.Node\<close> that the handler reads or writes (\<open>FQDN_Name\<close> is
  \<^verbatim>\<open>node.FQDN.Name\<close>). The client \<^verbatim>\<open>*bigip.BigIP\<close> is outside the repository: it is any five
  functions over a remote state \<open>'r\<close>. \<^verbatim>\<open>GetNode\<close> returns the pair \<^verbatim>\<open>(node, err)\<close>, where
  a nil node without an error says that the node does not exist.
\<close>

record Node =
  Address :: string
  ConnectionLimit :: int
  DynamicRatio :: int
  Monitor :: string
  RateLimit :: string
  State :: string
  FQDN_Name :: string

record 'r BigIP =
  CreateNode :: "string \<Rightarrow> string \<Rightarrow> string \<Rightarrow> int \<Rightarrow> int \<Rightarrow> int \<Rightarrow> string \<Rightarrow> string
                 \<Rightarrow> 'r \<Rightarrow> error option \<times> 'r"
  CreateFQDNNode :: "string \<Rightarrow> string \<Rightarrow> string \<Rightarrow> int \<Rightarrow> int \<Rightarrow> int \<Rightarrow> string \<Rightarrow> string
                     \<Rightarrow> string \<Rightarrow> int \<Rightarrow> string \<Rightarrow> 'r \<Rightarrow> error option \<times> 'r"
  GetNode :: "string \<Rightarrow> 'r \<Rightarrow> (Node option \<times> error option) \<times> 'r"
  ModifyNode :: "string \<Rightarrow> Node \<Rightarrow> 'r \<Rightarrow> error option \<times> 'r"
  DeleteNode :: "string \<Rightarrow> 'r \<Rightarrow> error option \<times> 'r"

text \<open>Every call issued to the client is logged with its arguments and the error it returned.\<close>

datatype call =
    CreateNodeCall string string string int int int string string
  | CreateFQDNNodeCall string string string int int int string string string int string
  | GetNodeCall string
  | ModifyNodeCall string Node
  | DeleteNodeCall string

text \<open>What an operation works on: the resource data, the remote and the calls so far.\<close>

record 'r world =
  rd :: ResourceData
  remote :: 'r
  trace :: "(call \<times> error option) list"

text \<open>An operation of type \<^verbatim>\<open>func(...) error\<close> panics or returns an error or nil.\<close>

datatype outcome = Panic string | Ret "error option"

definition or_panic :: "'a go \<Rightarrow> 'w \<Rightarrow> ('a \<Rightarrow> outcome \<times> 'w) \<Rightarrow> outcome \<times> 'w" where
  "or_panic x w f = (case x of Panics m \<Rightarrow> (Panic m, w) | Val v \<Rightarrow> f v)"

definition issue :: "call \<Rightarrow> error option \<Rightarrow> 'r \<Rightarrow> 'r world \<Rightarrow> 'r world" where
  "issue cl err r' w = w\<lparr>remote := r', trace := trace w @ [(cl, err)]\<rparr>"

section \<open>resourceBigipLtmNodeRead\<close>

text \<open>
  The address written by read: the FQDN name when there is one, else group 1 of the
  extraction pattern on \<^verbatim>\<open>node.Address\<close>. \<^verbatim>\<open>address[1]\<close> is an unguarded index into the
  slice that \<^verbatim>\<open>FindStringSubmatch\<close> returns.
\<close>

definition read_address :: "Node \<Rightarrow> 'r world \<Rightarrow> ('r world \<Rightarrow> outcome \<times> 'r world) \<Rightarrow> outcome \<times> 'r world" where
  "read_address node w k =
     (if FQDN_Name node \<noteq> [] then
        (case Set (rd w) ''address'' (VStr (FQDN_Name node)) of
           (Some err, d') \<Rightarrow> (Ret (Some (StateError ''Error saving address to state for Node'')), w\<lparr>rd := d'\<rparr>)
         | (None, d') \<Rightarrow> k (w\<lparr>rd := d'\<rparr>))
      else
        or_panic (index (FindStringSubmatch extract_re 1 (Address node)) 1) w (\<lambda>a.
          case Set (rd w) ''address'' (VStr a) of
            (Some err, d') \<Rightarrow> (Ret (Some (StateError ''Error saving address to state for Node'')), w\<lparr>rd := d'\<rparr>)
          | (None, d') \<Rightarrow> k (w\<lparr>rd := d'\<rparr>)))"

definition read_rest :: "string \<Rightarrow> Node \<Rightarrow> 'r world \<Rightarrow> outcome \<times> 'r world" where
  "read_rest nm node w =
     (let d1 = snd (Set (rd w) ''name'' (VStr nm)) in
      case Set d1 ''monitor'' (VStr (Monitor node)) of
        (Some err, d2) \<Rightarrow> (Ret (Some (StateError ''Error saving Monitor to state for Node'')), w\<lparr>rd := d2\<rparr>)
      | (None, d2) \<Rightarrow>
         (case Set d2 ''rate_limit'' (VStr (RateLimit node)) of
            (Some err, d3) \<Rightarrow> (Ret (Some (StateError ''Error saving Monitor to state for Node'')), w\<lparr>rd := d3\<rparr>)
          | (None, d3) \<Rightarrow>
             (let d4 = snd (Set d3 ''connection_limit'' (VInt (ConnectionLimit node)));
                  d5 = snd (Set d4 ''dynamic_ratio'' (VInt (DynamicRatio node)))
              in (Ret None, w\<lparr>rd := d5\<rparr>))))"

definition resourceBigipLtmNodeRead :: "'r BigIP \<Rightarrow> 'r world \<Rightarrow> outcome \<times> 'r world" where
  "resourceBigipLtmNodeRead client w =
     (let nm = Id' (rd w);
          (res, r') = GetNode client nm (remote w);
          w1 = issue (GetNodeCall nm) (snd res) r' w
      in case snd res of
           Some err \<Rightarrow> (Ret (Some err), w1)
         | None \<Rightarrow>
            (case fst res of
               None \<Rightarrow> (Ret None, w1\<lparr>rd := SetId (rd w1) []\<rparr>)
             | Some node \<Rightarrow> read_address node w1 (read_rest nm node)))"

section \<open>resourceBigipLtmNodeExists\<close>

definition resourceBigipLtmNodeExists :: "'r BigIP \<Rightarrow> 'r world \<Rightarrow> (bool \<times> error option) \<times> 'r world" where
  "resourceBigipLtmNodeExists client w =
     (let nm = Id' (rd w);
          (res, r') = GetNode client nm (remote w);
          w1 = issue (GetNodeCall nm) (snd res) r' w
      in case snd res of
           Some err \<Rightarrow> ((False, Some err), w1)
         | None \<Rightarrow>
            (case fst res of
               None \<Rightarrow> ((False, None), w1\<lparr>rd := SetId (rd w1) []\<rparr>)
             | Some node \<Rightarrow> ((True, None), w1)))"

section \<open>resourceBigipLtmNodeCreate\<close>

text \<open>The eight values that both create calls carry.\<close>

record base_args =
  a_name :: string
  a_address :: string
  a_rate_limit :: string
  a_connection_limit :: int
  a_dynamic_ratio :: int
  a_ratio :: int
  a_monitor :: string
  a_state :: string

text \<open>
  The loop over the \<^verbatim>\<open>fqdn\<close> blocks, \<^verbatim>\<open>for i := 0; i < ifaceCount; i++\<close>: each round reads
  three attributes of block \<open>i\<close>, calls \<^verbatim>\<open>CreateFQDNNode\<close> and assigns its result to \<^verbatim>\<open>err\<close>.
  The third attribute is read under the key \<^verbatim>\<open>auto_populate\<close>.
\<close>

function create_fqdn_loop :: "'r BigIP \<Rightarrow> base_args \<Rightarrow> int \<Rightarrow> int \<Rightarrow> error option \<Rightarrow> 'r world
                              \<Rightarrow> outcome \<times> 'r world" where
  "create_fqdn_loop client a i ifaceCount err w =
     (if i < ifaceCount then
        or_panic (as_string (Get_fqdn (rd w) i ''interval'')) w (\<lambda>interval.
        or_panic (as_int (Get_fqdn (rd w) i ''down_interval'')) w (\<lambda>down_interval.
        or_panic (as_string (Get_fqdn (rd w) i ''auto_populate'')) w (\<lambda>auto_populate.
          create_fqdn_loop client a (i + 1) ifaceCount
            (fst (CreateFQDNNode client (a_name a) (a_address a) (a_rate_limit a)
                    (a_connection_limit a) (a_dynamic_ratio a) (a_ratio a) (a_monitor a)
                    (a_state a) interval down_interval auto_populate (remote w)))
            (issue (CreateFQDNNodeCall (a_name a) (a_address a) (a_rate_limit a)
                      (a_connection_limit a) (a_dynamic_ratio a) (a_ratio a) (a_monitor a)
                      (a_state a) interval down_interval auto_populate)
                   (fst (CreateFQDNNode client (a_name a) (a_address a) (a_rate_limit a)
                           (a_connection_limit a) (a_dynamic_ratio a) (a_ratio a) (a_monitor a)
                           (a_state a) interval down_interval auto_populate (remote w)))
                   (snd (CreateFQDNNode client (a_name a) (a_address a) (a_rate_limit a)
                           (a_connection_limit a) (a_dynamic_ratio a) (a_ratio a) (a_monitor a)
                           (a_state a) interval down_interval auto_populate (remote w)))
                   w))))
      else (Ret err, w))"
  by pat_completeness auto
termination
  by (relation "measure (\<lambda>(client, a, i, ifaceCount, err, w). nat (ifaceCount - i))") auto

definition create_static :: "'r BigIP \<Rightarrow> base_args \<Rightarrow> 'r world \<Rightarrow> outcome \<times> 'r world" where
  "create_static client a w =
     (let (err, r') = CreateNode client (a_name a) (a_address a) (a_rate_limit a)
                        (a_connection_limit a) (a_dynamic_ratio a) (a_ratio a) (a_monitor a)
                        (a_state a) (remote w)
      in (Ret err, issue (CreateNodeCall (a_name a) (a_address a) (a_rate_limit a)
                            (a_connection_limit a) (a_dynamic_ratio a) (a_ratio a) (a_monitor a)
                            (a_state a)) err r' w))"

definition create_args :: "ResourceData \<Rightarrow> 'w \<Rightarrow> (base_args \<Rightarrow> outcome \<times> 'w) \<Rightarrow> outcome \<times> 'w" where
  "create_args d w k =
     or_panic (as_string (Get d ''name'')) w (\<lambda>nm.
     or_panic (as_string (Get d ''address'')) w (\<lambda>addr.
     or_panic (as_string (Get d ''rate_limit'')) w (\<lambda>rl.
     or_panic (as_int (Get d ''connection_limit'')) w (\<lambda>cl.
     or_panic (as_int (Get d ''dynamic_ratio'')) w (\<lambda>dr.
     or_panic (as_int (Get d ''ratio'')) w (\<lambda>ra.
     or_panic (as_string (Get d ''monitor'')) w (\<lambda>mo.
     or_panic (as_string (Get d ''state'')) w (\<lambda>st.
       k \<lparr>a_name = nm, a_address = addr, a_rate_limit = rl, a_connection_limit = cl,
          a_dynamic_ratio = dr, a_ratio = ra, a_monitor = mo, a_state = st\<rparr>))))))))"

definition create_calls :: "'r BigIP \<Rightarrow> base_args \<Rightarrow> 'r world \<Rightarrow> outcome \<times> 'r world" where
  "create_calls client a w =
     (if MatchString classify_re (a_address a) then create_static client a w
      else or_panic (as_int (Get (rd w) ''fqdn.#'')) w (\<lambda>ifaceCount.
             create_fqdn_loop client a 0 ifaceCount None w))"

definition resourceBigipLtmNodeCreate :: "'r BigIP \<Rightarrow> 'r world \<Rightarrow> outcome \<times> 'r world" where
  "resourceBigipLtmNodeCreate client w =
     create_args (rd w) w (\<lambda>a.
       case create_calls client a w of
         (Panic m, w1) \<Rightarrow> (Panic m, w1)
       | (Ret (Some err), w1) \<Rightarrow> (Ret (Some err), w1)
       | (Ret None, w1) \<Rightarrow>
           resourceBigipLtmNodeRead client (w1\<lparr>rd := SetId (rd w1) (a_name a)\<rparr>))"

section \<open>resourceBigipLtmNodeUpdate\<close>

text \<open>
  The \<^verbatim>\<open>bigip.Node\<close> literal of update. The static branch sets \<^verbatim>\<open>Address\<close>; the other
  branch leaves it at its zero value. Neither sets the FQDN name.
\<close>

definition node_payload :: "ResourceData \<Rightarrow> string \<Rightarrow> 'w \<Rightarrow> (Node \<Rightarrow> outcome \<times> 'w) \<Rightarrow> outcome \<times> 'w" where
  "node_payload d addr w k =
     or_panic (as_int (Get d ''connection_limit'')) w (\<lambda>cl.
     or_panic (as_int (Get d ''dynamic_ratio'')) w (\<lambda>dr.
     or_panic (as_string (Get d ''monitor'')) w (\<lambda>mo.
     or_panic (as_string (Get d ''rate_limit'')) w (\<lambda>rl.
     or_panic (as_string (Get d ''state'')) w (\<lambda>st.
       k \<lparr>Address = addr, ConnectionLimit = cl, DynamicRatio = dr, Monitor = mo,
          RateLimit = rl, State = st, FQDN_Name = []\<rparr>)))))"

definition resourceBigipLtmNodeUpdate :: "'r BigIP \<Rightarrow> 'r world \<Rightarrow> outcome \<times> 'r world" where
  "resourceBigipLtmNodeUpdate client w =
     (let nm = Id' (rd w) in
      or_panic (as_string (Get (rd w) ''address'')) w (\<lambda>addr.
        if MatchString classify_re addr then
          node_payload (rd w) addr w (\<lambda>node. resourceBigipLtmNodeRead client w)
        else
          node_payload (rd w) [] w (\<lambda>node.
            let (err, r') = ModifyNode client nm node (remote w);
                w1 = issue (ModifyNodeCall nm node) err r' w
            in case err of
                 Some e \<Rightarrow> (Ret (Some e), w1)
               | None \<Rightarrow> resourceBigipLtmNodeRead client w1)))"

section \<open>resourceBigipLtmNodeDelete\<close>

definition resourceBigipLtmNodeDelete :: "'r BigIP \<Rightarrow> 'r world \<Rightarrow> outcome \<times> 'r world" where
  "resourceBigipLtmNodeDelete client w =
     (let nm = Id' (rd w);
          (err, r') = DeleteNode client nm (remote w);
          w1 = issue (DeleteNodeCall nm) err r' w
      in case err of
           Some e \<Rightarrow> (Ret (Some e), w1)
         | None \<Rightarrow> (Ret None, w1\<lparr>rd := SetId (rd w1) []\<rparr>))"

section \<open>Derived notions used in the statements\<close>

text \<open>
  The eight values that create reads at lines 116 to 123, the node literal that update
  builds, and the resource data after a successful read that wrote the address \<open>a\<close>.
\<close>

definition args_of :: "ResourceData \<Rightarrow> base_args" where
  "args_of d =
     \<lparr>a_name = (case name d of None \<Rightarrow> [] | Some v \<Rightarrow> v),
      a_address = (case address d of None \<Rightarrow> [] | Some v \<Rightarrow> v),
      a_rate_limit = (case rate_limit d of None \<Rightarrow> [] | Some v \<Rightarrow> v),
      a_connection_limit = (case connection_limit d of None \<Rightarrow> 0 | Some v \<Rightarrow> v),
      a_dynamic_ratio = (case dynamic_ratio d of None \<Rightarrow> 0 | Some v \<Rightarrow> v),
      a_ratio = (case ratio d of None \<Rightarrow> 1 | Some v \<Rightarrow> v),
      a_monitor = (case monitor d of None \<Rightarrow> [] | Some v \<Rightarrow> v),
      a_state = (case state d of None \<Rightarrow> ''user-up'' | Some v \<Rightarrow> v)\<rparr>"

definition payload_of :: "ResourceData \<Rightarrow> string \<Rightarrow> Node" where
  "payload_of d addr =
     \<lparr>Address = addr,
      ConnectionLimit = (case connection_limit d of None \<Rightarrow> 0 | Some v \<Rightarrow> v),
      DynamicRatio = (case dynamic_ratio d of None \<Rightarrow> 0 | Some v \<Rightarrow> v),
      Monitor = (case monitor d of None \<Rightarrow> [] | Some v \<Rightarrow> v),
      RateLimit = (case rate_limit d of None \<Rightarrow> [] | Some v \<Rightarrow> v),
      State = (case state d of None \<Rightarrow> ''user-up'' | Some v \<Rightarrow> v),
      FQDN_Name = []\<rparr>"

definition refreshed :: "ResourceData \<Rightarrow> string \<Rightarrow> Node \<Rightarrow> ResourceData" where
  "refreshed d a node =
     d\<lparr>address := Some a, name := Some (Id' d), monitor := Some (Monitor node),
       rate_limit := Some (RateLimit node), connection_limit := Some (ConnectionLimit node),
       dynamic_ratio := Some (DynamicRatio node)\<rparr>"


text \<open>
  A dotted quad in the specification's sense: four groups of one to three decimal digits
  with dots between them; and a route-domain suffix: nothing, or a percent sign and at
  least one digit.
\<close>

definition is_digit :: "char \<Rightarrow> bool" where
  "is_digit c = in_range (CHR ''0'') (CHR ''9'') c"

definition digits13 :: "string \<Rightarrow> bool" where
  "digits13 ds \<longleftrightarrow> ds \<noteq> [] \<and> length ds \<le> 3 \<and> list_all is_digit ds"

definition dotted_quad :: "string \<Rightarrow> string \<Rightarrow> string \<Rightarrow> string \<Rightarrow> string" where
  "dotted_quad d1 d2 d3 d4 = d1 @ ''.'' @ d2 @ ''.'' @ d3 @ ''.'' @ d4"

definition route_domain :: "string \<Rightarrow> bool" where
  "route_domain s =
     (case s of [] \<Rightarrow> True | c # ds \<Rightarrow> c = CHR ''%'' \<and> ds \<noteq> [] \<and> list_all is_digit ds)"

text \<open>Patterns without a capture group, and names for the parts of the two patterns.\<close>

fun nogroup :: "re \<Rightarrow> bool" where
  "nogroup (Group n r) = False"
| "nogroup (Seq r1 r2) = (nogroup r1 \<and> nogroup r2)"
| "nogroup (Alt r1 r2) = (nogroup r1 \<and> nogroup r2)"
| "nogroup (Opt r) = nogroup r"
| "nogroup (Star r) = nogroup r"
| "nogroup r = True"

abbreviation D13 :: re where
  "D13 \<equiv> Repeat 1 3 (CharRange (CHR ''0'') (CHR ''9''))"

abbreviation quad_re :: re where
  "quad_re \<equiv> Seq (Repeat 3 3 (Seq D13 (Lit (CHR ''.'')))) D13"

abbreviation tail_re :: re where
  "tail_re \<equiv> Opt (Seq (Lit (CHR ''%'')) (OneOrMore Digit))"

section \<open>Concrete inputs\<close>

text \<open>
  A remote that answers every \<^verbatim>\<open>GetNode\<close> with \<open>g\<close> and every other call with \<open>e\<close>, a
  configuration with only the required fields and the \<^verbatim>\<open>fqdn\<close> blocks given, a world that
  starts with no call made, a block with nothing configured, and a node as the remote may
  report it.
\<close>

definition answering :: "Node option \<times> error option \<Rightarrow> error option \<Rightarrow> unit BigIP" where
  "answering g e =
     \<lparr>CreateNode = (\<lambda>_ _ _ _ _ _ _ _ r. (e, r)),
      CreateFQDNNode = (\<lambda>_ _ _ _ _ _ _ _ _ _ _ r. (e, r)),
      GetNode = (\<lambda>_ r. (g, r)),
      ModifyNode = (\<lambda>_ _ r. (e, r)),
      DeleteNode = (\<lambda>_ r. (e, r))\<rparr>"

definition node_config :: "string \<Rightarrow> string \<Rightarrow> string \<Rightarrow> fqdn_block list \<Rightarrow> ResourceData" where
  "node_config ident nm addr blocks =
     \<lparr>Id' = ident, name = Some nm, address = Some addr, rate_limit = None,
      connection_limit = None, dynamic_ratio = None, ratio = None, monitor = None,
      state = None, fqdn = blocks\<rparr>"

definition start :: "ResourceData \<Rightarrow> unit world" where
  "start d = \<lparr>rd = d, remote = (), trace = []\<rparr>"

definition default_block :: fqdn_block where
  "default_block = \<lparr>address_family = None, fqdn_name = None, interval = None,
                     down_interval = None, autopopulate = None\<rparr>"

text \<open>
  An address whose digit groups are set apart by a rune of three bytes: the UTF-8 bytes
  of 1, U+4E2D, 2, U+4E2D, 3, U+4E2D, 4.
\<close>

definition wide_separated :: string where
  "wide_separated =
     [CHR ''1'', CHR 0xE4, CHR 0xB8, CHR 0xAD, CHR ''2'', CHR 0xE4, CHR 0xB8, CHR 0xAD,
      CHR ''3'', CHR 0xE4, CHR 0xB8, CHR 0xAD, CHR ''4'']"

definition remote_node :: "string \<Rightarrow> string \<Rightarrow> Node" where
  "remote_node addr fq = \<lparr>Address = addr, ConnectionLimit = 0, DynamicRatio = 0, Monitor = [],
                          RateLimit = [], State = ''user-up'', FQDN_Name = fq\<rparr>"

section \<open>Facts about the resource data and the operations\<close>

lemma as_string_Get [simp]:
  "as_string (Get d ''name'') = Val (case name d of None \<Rightarrow> [] | Some v \<Rightarrow> v)"
  "as_string (Get d ''address'') = Val (case address d of None \<Rightarrow> [] | Some v \<Rightarrow> v)"
  "as_string (Get d ''rate_limit'') = Val (case rate_limit d of None \<Rightarrow> [] | Some v \<Rightarrow> v)"
  "as_string (Get d ''monitor'') = Val (case monitor d of None \<Rightarrow> [] | Some v \<Rightarrow> v)"
  "as_string (Get d ''state'') = Val (case state d of None \<Rightarrow> ''user-up'' | Some v \<Rightarrow> v)"
  by (simp_all add: as_string_def Get_def str_or_def)

lemma as_int_Get [simp]:
  "as_int (Get d ''connection_limit'') = Val (case connection_limit d of None \<Rightarrow> 0 | Some v \<Rightarrow> v)"
  "as_int (Get d ''dynamic_ratio'') = Val (case dynamic_ratio d of None \<Rightarrow> 0 | Some v \<Rightarrow> v)"
  "as_int (Get d ''ratio'') = Val (case ratio d of None \<Rightarrow> 1 | Some v \<Rightarrow> v)"
  "as_int (Get d ''fqdn.#'') = Val (int (length (fqdn d)))"
  by (simp_all add: as_int_def Get_def int_or_def)

lemma or_panic_Val [simp]: "or_panic (Val v) w f = f v"
  by (simp add: or_panic_def)

lemma or_panic_Panics [simp]: "or_panic (Panics m) w f = (Panic m, w)"
  by (simp add: or_panic_def)

lemma Get_fqdn_auto_populate [simp]: "Get_fqdn d i ''auto_populate'' = VNil"
  by (simp add: Get_fqdn_def fqdn_attr_def)



lemma as_string_VNil [simp]: "as_string VNil = Panics ''interface conversion: not string''"
  by (simp add: as_string_def)

declare create_fqdn_loop.simps [simp del]


lemma create_fqdn_loop_done:
  "\<not> i < ifaceCount \<Longrightarrow> create_fqdn_loop client a i ifaceCount err w = (Ret err, w)"
  by (subst create_fqdn_loop.simps) simp

lemma Set_simps [simp]:
  "Set d ''name'' (VStr s) = (None, d\<lparr>name := Some s\<rparr>)"
  "Set d ''address'' (VStr s) = (None, d\<lparr>address := Some s\<rparr>)"
  "Set d ''rate_limit'' (VStr s) = (None, d\<lparr>rate_limit := Some s\<rparr>)"
  "Set d ''monitor'' (VStr s) = (None, d\<lparr>monitor := Some s\<rparr>)"
  "Set d ''connection_limit'' (VInt i) = (None, d\<lparr>connection_limit := Some i\<rparr>)"
  "Set d ''dynamic_ratio'' (VInt i) = (None, d\<lparr>dynamic_ratio := Some i\<rparr>)"
  by (simp_all add: Set_def)

lemma read_rest_eq:
  "read_rest nm node w =
     (Ret None, w\<lparr>rd := (rd w)\<lparr>name := Some nm, monitor := Some (Monitor node),
                               rate_limit := Some (RateLimit node),
                               connection_limit := Some (ConnectionLimit node),
                               dynamic_ratio := Some (DynamicRatio node)\<rparr>\<rparr>)"
  by (simp add: read_rest_def)

lemma create_args_eq: "create_args d w k = k (args_of d)"
  by (simp add: create_args_def args_of_def)

lemma node_payload_eq: "node_payload d addr w k = k (payload_of d addr)"
  by (simp add: node_payload_def payload_of_def)

lemma read_error:
  assumes "GetNode client (Id' (rd w)) (remote w) = ((n, Some e), r')"
  shows "resourceBigipLtmNodeRead client w = (Ret (Some e), issue (GetNodeCall (Id' (rd w))) (Some e) r' w)"
  using assms by (simp add: resourceBigipLtmNodeRead_def)

lemma read_not_found:
  assumes "GetNode client (Id' (rd w)) (remote w) = ((None, None), r')"
  shows "resourceBigipLtmNodeRead client w =
           (Ret None, (issue (GetNodeCall (Id' (rd w))) None r' w)\<lparr>rd := SetId (rd w) []\<rparr>)"
  using assms by (simp add: resourceBigipLtmNodeRead_def issue_def)

lemma read_fqdn:
  assumes "GetNode client (Id' (rd w)) (remote w) = ((Some node, None), r')"
      and "FQDN_Name node \<noteq> []"
  shows "resourceBigipLtmNodeRead client w =
           (Ret None, (issue (GetNodeCall (Id' (rd w))) None r' w)\<lparr>rd := refreshed (rd w) (FQDN_Name node) node\<rparr>)"
  using assms
  by (simp add: resourceBigipLtmNodeRead_def read_address_def read_rest_eq issue_def refreshed_def Let_def)

lemma read_extracted:
  assumes "GetNode client (Id' (rd w)) (remote w) = ((Some node, None), r')"
      and "FQDN_Name node = []"
      and "FindStringSubmatch extract_re 1 (Address node) = [m, a]"
  shows "resourceBigipLtmNodeRead client w =
           (Ret None, (issue (GetNodeCall (Id' (rd w))) None r' w)\<lparr>rd := refreshed (rd w) a node\<rparr>)"
  using assms
  by (simp add: resourceBigipLtmNodeRead_def read_address_def read_rest_eq issue_def refreshed_def index_def Let_def)

lemma read_unmatched:
  assumes "GetNode client (Id' (rd w)) (remote w) = ((Some node, None), r')"
      and "FQDN_Name node = []"
      and "FindStringSubmatch extract_re 1 (Address node) = []"
  shows "resourceBigipLtmNodeRead client w =
           (Panic ''index out of range'', issue (GetNodeCall (Id' (rd w))) None r' w)"
  using assms
  by (simp add: resourceBigipLtmNodeRead_def read_address_def index_def)

lemma FindStringSubmatch_shape:
  "FindStringSubmatch extract_re 1 s = [] \<or> (\<exists>m a. FindStringSubmatch extract_re 1 s = [m, a])"
  by (simp add: FindStringSubmatch_def split: option.splits)

lemma read_trace:
  "\<exists>e. trace (snd (resourceBigipLtmNodeRead client w)) = trace w @ [(GetNodeCall (Id' (rd w)), e)]"
proof -
  obtain n e r' where g: "GetNode client (Id' (rd w)) (remote w) = ((n, e), r')"
    by (metis surj_pair)
  show ?thesis
  proof (cases e)
    case (Some err)
    with g show ?thesis by (simp add: read_error issue_def)
  next
    case None
    note e = this
    show ?thesis
    proof (cases n)
      case None
      with g e show ?thesis by (simp add: read_not_found issue_def)
    next
      case (Some node)
      show ?thesis
      proof (cases "FQDN_Name node = []")
        case False
        with g e Some show ?thesis by (simp add: read_fqdn issue_def)
      next
        case True
        from FindStringSubmatch_shape [of "Address node"] show ?thesis
        proof
          assume "FindStringSubmatch extract_re 1 (Address node) = []"
          with g e Some True show ?thesis by (simp add: read_unmatched issue_def)
        next
          assume "\<exists>m a. FindStringSubmatch extract_re 1 (Address node) = [m, a]"
          then obtain m a where "FindStringSubmatch extract_re 1 (Address node) = [m, a]" by blast
          with g e Some True show ?thesis by (simp add: read_extracted issue_def)
        qed
      qed
    qed
  qed
qed

lemma create_calls_static:
  "MatchString classify_re (a_address a) \<Longrightarrow>
   create_calls client a w =
     (Ret (fst (CreateNode client (a_name a) (a_address a) (a_rate_limit a)
                  (a_connection_limit a) (a_dynamic_ratio a) (a_ratio a) (a_monitor a)
                  (a_state a) (remote w))),
      issue (CreateNodeCall (a_name a) (a_address a) (a_rate_limit a)
                  (a_connection_limit a) (a_dynamic_ratio a) (a_ratio a) (a_monitor a)
                  (a_state a))
            (fst (CreateNode client (a_name a) (a_address a) (a_rate_limit a)
                  (a_connection_limit a) (a_dynamic_ratio a) (a_ratio a) (a_monitor a)
                  (a_state a) (remote w)))
            (snd (CreateNode client (a_name a) (a_address a) (a_rate_limit a)
                  (a_connection_limit a) (a_dynamic_ratio a) (a_ratio a) (a_monitor a)
                  (a_state a) (remote w))) w)"
  by (simp add: create_calls_def create_static_def split: prod.splits)

lemma create_calls_no_block:
  "\<not> MatchString classify_re (a_address a) \<Longrightarrow> fqdn (rd w) = [] \<Longrightarrow>
   create_calls client a w = (Ret None, w)"
  by (simp add: create_calls_def create_fqdn_loop_done)


section \<open>Facts about the two patterns\<close>

lemma step_char_caps: "st' \<in> set (step_char p st) \<Longrightarrow> snd (snd st') = snd (snd st)"
  by (auto simp add: step_char_def split: list.splits if_splits)

lemma step_any_caps: "st' \<in> set (step_any st) \<Longrightarrow> snd (snd st') = snd (snd st)"
  by (auto simp add: step_any_def split: list.splits if_splits)

lemma rune_width_ascii: "(of_char x :: nat) < 0x80 \<Longrightarrow> rune_width (x # xs) = 1"
  by (simp add: rune_width_def)

lemma step_any_dot: "step_any (b, CHR ''.'' # rest, k) = [(False, rest, k)]"
  by (simp add: step_any_def rune_width_ascii newline_def)

lemma decode_width_bounds: "2 \<le> sz \<Longrightarrow> sz \<le> 4 \<Longrightarrow> 1 \<le> decode_width sz lo hi s \<and> decode_width sz lo hi s \<le> max 1 (length s)"
  by (simp add: decode_width_def)

lemma rune_width_bounds:
  assumes "s \<noteq> []"
  shows "1 \<le> rune_width s \<and> rune_width s \<le> length s"
proof (cases s)
  case Nil
  with assms show ?thesis by simp
next
  case (Cons b0 r0)
  have "1 \<le> decode_width sz lo hi s \<and> decode_width sz lo hi s \<le> length s"
    if "2 \<le> sz" "sz \<le> 4" for sz lo hi
    using decode_width_bounds [OF that, of lo hi s] Cons by simp
  then show ?thesis
    by (simp add: rune_width_def Cons [symmetric]) (simp add: Cons)
qed

text \<open>
  An address with separators of three bytes is matched like the dotted quad: each dot of
  the pattern takes one whole rune.
\<close>

lemma wide_separated_static: "MatchString classify_re wide_separated"
  by code_simp

lemma nogroup_caps:
  "nogroup r \<Longrightarrow> st' \<in> set (ms r st) \<Longrightarrow> snd (snd st') = snd (snd st)"
proof (induction r st arbitrary: st' rule: ms.induct)
  case (8 r1 r2 st)
  from "8.prems"(2) obtain x where x: "x \<in> set (ms r1 st)" "st' \<in> set (ms r2 x)"
    by auto
  from "8.prems"(1) have n: "nogroup r1" "nogroup r2" by simp_all
  from "8.IH"(1) [OF n(1) x(1)] "8.IH"(2) [OF x(1) n(2) x(2)] show ?case by simp
next
  case (9 r1 r2 st)
  from "9.prems" have "nogroup r1" "nogroup r2"
    and "st' \<in> set (ms r1 st) \<or> st' \<in> set (ms r2 st)" by simp_all
  with "9.IH" show ?case by blast
next
  case (10 r st)
  from "10.prems" have "nogroup r" and "st' \<in> set (ms r st) \<or> st' = st" by auto
  with "10.IH" show ?case by blast
next
  case (11 r st)
  from "11.prems"(2) have "st' = st \<or>
      (\<exists>x \<in> set (ms r st). length (fst (snd x)) < length (fst (snd st)) \<and> st' \<in> set (ms (Star r) x))"
    by (subst (asm) ms.simps(11)) (auto split: if_splits simp del: ms.simps(11))
  then show ?case
  proof
    assume "st' = st"
    then show ?thesis by simp
  next
    assume "\<exists>x \<in> set (ms r st). length (fst (snd x)) < length (fst (snd st)) \<and> st' \<in> set (ms (Star r) x)"
    then obtain x where x: "x \<in> set (ms r st)" "length (fst (snd x)) < length (fst (snd st))"
        "st' \<in> set (ms (Star r) x)" by blast
    from "11.prems"(1) have n: "nogroup r" by simp
    from "11.IH"(2) [OF x(1) x(2) "11.prems"(1) x(3)] "11.IH"(1) [OF n x(1)]
    show ?thesis by simp
  qed
next
  case (12 n r st)
  then show ?case by simp
qed (auto dest: step_char_caps step_any_caps split: if_splits)

lemma digit_not_special:
  "is_digit c \<Longrightarrow> c \<noteq> CHR ''.'' \<and> c \<noteq> CHR ''%'' \<and> c \<noteq> newline"
  by (auto simp add: is_digit_def in_range_def newline_def)

lemma digits13_cases:
  assumes "digits13 ds"
  obtains a where "ds = [a]" "is_digit a"
  | a b where "ds = [a, b]" "is_digit a" "is_digit b"
  | a b c where "ds = [a, b, c]" "is_digit a" "is_digit b" "is_digit c"
proof -
  from assms have "0 < length ds" "length ds \<le> 3"
    by (simp_all add: digits13_def)
  then have "length ds = 1 \<or> length ds = 2 \<or> length ds = 3"
    by arith
  then show thesis
  proof (elim disjE)
    assume "length ds = 1"
    then obtain a where "ds = [a]" by (cases ds) auto
    with assms that(1) show thesis by (simp add: digits13_def)
  next
    assume "length ds = 2"
    then obtain a b where "ds = [a, b]"
      by (metis (no_types, opaque_lifting) One_nat_def Suc_1 length_0_conv length_Suc_conv)
    with assms that(2) show thesis by (simp add: digits13_def)
  next
    assume "length ds = 3"
    then obtain a b c where "ds = [a, b, c]"
      by (metis (no_types, opaque_lifting) length_0_conv length_Suc_conv numeral_3_eq_3)
    with assms that(3) show thesis by (simp add: digits13_def)
  qed
qed

lemma dot_group:
  assumes "digits13 ds"
  shows "ms (Seq D13 (Lit (CHR ''.''))) (b, ds @ CHR ''.'' # rest, k) = [(False, rest, k)]"
  using assms
  by (rule digits13_cases)
     (auto simp add: Repeat_def numeral_2_eq_2 step_char_def is_digit_def dest: digit_not_special [unfolded is_digit_def])

lemma ms_Seq_single: "ms r1 st = [x] \<Longrightarrow> ms (Seq r1 r2) st = ms r2 x"
  by simp

lemma ms_Seq_first: "ms r1 st = x # xs \<Longrightarrow> ms r2 x = y # ys \<Longrightarrow> \<exists>zs. ms (Seq r1 r2) st = y # zs"
  by simp

lemma last_group:
  assumes "digits13 ds" and "s = [] \<or> \<not> is_digit (hd s)"
  shows "\<exists>xs. ms D13 (b, ds @ s, k) = (False, s, k) # xs"
  using assms(1)
proof (rule digits13_cases)
  fix a assume "ds = [a]" "is_digit a"
  with assms(2) show ?thesis
    by (cases s) (auto simp add: Repeat_def numeral_2_eq_2 step_char_def is_digit_def)
next
  fix a c assume "ds = [a, c]" "is_digit a" "is_digit c"
  with assms(2) show ?thesis
    by (cases s) (auto simp add: Repeat_def numeral_2_eq_2 step_char_def is_digit_def)
next
  fix a c e assume "ds = [a, c, e]" "is_digit a" "is_digit c" "is_digit e"
  with assms(2) show ?thesis
    by (cases s) (auto simp add: Repeat_def numeral_2_eq_2 step_char_def is_digit_def)
qed

lemma Repeat_3_3: "Repeat 3 3 r = Seq (Seq r (Seq r (Seq r Epsilon))) Epsilon"
  by (simp add: Repeat_def numeral_3_eq_3)

lemma three_groups:
  assumes "digits13 d1" "digits13 d2" "digits13 d3"
  shows "ms (Repeat 3 3 (Seq D13 (Lit (CHR ''.''))))
            (b, d1 @ CHR ''.'' # d2 @ CHR ''.'' # d3 @ CHR ''.'' # rest, k) = [(False, rest, k)]"
proof -
  let ?G = "Seq D13 (Lit (CHR ''.''))"
  have e: "Repeat 3 3 ?G = Seq (Seq ?G (Seq ?G (Seq ?G Epsilon))) Epsilon"
    by (rule Repeat_3_3)
  have 3: "ms (Seq ?G Epsilon) (False, d3 @ CHR ''.'' # rest, k) = [(False, rest, k)]"
    by (simp only: ms_Seq_single [OF dot_group [OF assms(3)]] ms.simps(1))
  have 2: "ms (Seq ?G (Seq ?G Epsilon)) (False, d2 @ CHR ''.'' # d3 @ CHR ''.'' # rest, k) = [(False, rest, k)]"
    by (simp only: ms_Seq_single [OF dot_group [OF assms(2)]] 3)
  have 1: "ms (Seq ?G (Seq ?G (Seq ?G Epsilon))) (b, d1 @ CHR ''.'' # d2 @ CHR ''.'' # d3 @ CHR ''.'' # rest, k) = [(False, rest, k)]"
    by (simp only: ms_Seq_single [OF dot_group [OF assms(1)]] 2)
  show ?thesis
    by (simp only: e ms_Seq_single [OF 1] ms.simps(1))
qed

lemma quad_first:
  assumes "digits13 d1" "digits13 d2" "digits13 d3" "digits13 d4"
      and "s = [] \<or> \<not> is_digit (hd s)"
  shows "\<exists>xs. ms quad_re (b, dotted_quad d1 d2 d3 d4 @ s, k) = (False, s, k) # xs"
proof -
  have t: "dotted_quad d1 d2 d3 d4 @ s = d1 @ CHR ''.'' # d2 @ CHR ''.'' # d3 @ CHR ''.'' # (d4 @ s)"
    by (simp add: dotted_quad_def)
  show ?thesis
    by (simp only: t ms_Seq_single [OF three_groups [OF assms(1-3)]] last_group [OF assms(4,5)])
qed

lemma route_domain_no_digit:
  assumes "route_domain s"
  shows "s = [] \<or> \<not> is_digit (hd s)"
  using assms by (cases s) (auto simp add: route_domain_def dest: digit_not_special)

lemma tail_first: "\<exists>y ys. ms tail_re x = y # ys \<and> snd (snd y) = snd (snd x)"
proof -
  have ne: "ms tail_re x \<noteq> []" by simp
  then obtain y ys where y: "ms tail_re x = y # ys" by (cases "ms tail_re x") auto
  have "nogroup tail_re" by (simp add: OneOrMore_def)
  moreover from y have "y \<in> set (ms tail_re x)" by simp
  ultimately have "snd (snd y) = snd (snd x)" by (rule nogroup_caps)
  with y show ?thesis by blast
qed

lemma extract_quad:
  assumes "digits13 d1" "digits13 d2" "digits13 d3" "digits13 d4" and "route_domain s"
  shows "\<exists>m. FindStringSubmatch extract_re 1 (dotted_quad d1 d2 d3 d4 @ s) =
               [m, dotted_quad d1 d2 d3 d4]"
proof -
  let ?q = "dotted_quad d1 d2 d3 d4"
  from quad_first [OF assms(1-4) route_domain_no_digit [OF assms(5)]]
  obtain xs where q: "ms quad_re (True, ?q @ s, Map.empty) = (False, s, Map.empty) # xs"
    by blast
  let ?x = "(False, s, [1 \<mapsto> ?q])"
  from q obtain xs' where g: "ms (Group 1 quad_re) (True, ?q @ s, Map.empty) = ?x # xs'"
    by (simp del: ms.simps(8))
  from tail_first [of ?x] obtain y ys where
    y: "ms tail_re ?x = y # ys" "snd (snd y) = [1 \<mapsto> ?q]" by auto
  from ms_Seq_first [OF g y(1)] obtain zs where
    "ms (Seq (Group 1 quad_re) tail_re) (True, ?q @ s, Map.empty) = y # zs" by blast
  then have "search extract_re True (?q @ s) = Some (?q @ s, y)"
    by (simp add: extract_re_def del: ms.simps)
  with y(2) show ?thesis
    by (simp add: FindStringSubmatch_def)
qed

lemma ms_Seq_mem: "x \<in> set (ms r1 st) \<Longrightarrow> y \<in> set (ms r2 x) \<Longrightarrow> y \<in> set (ms (Seq r1 r2) st)"
  by auto

lemma any_group:
  assumes "digits13 ds"
  shows "(False, rest, k) \<in> set (ms (Seq D13 AnyNL) (b, ds @ CHR ''.'' # rest, k))"
  using assms
  by (rule digits13_cases)
     (auto simp add: Repeat_def numeral_2_eq_2 step_char_def step_any_dot is_digit_def)

lemma three_any_groups:
  assumes "digits13 d1" "digits13 d2" "digits13 d3"
  shows "(False, rest, k) \<in> set (ms (Repeat 3 3 (Seq D13 AnyNL))
            (b, d1 @ CHR ''.'' # d2 @ CHR ''.'' # d3 @ CHR ''.'' # rest, k))"
proof -
  let ?G = "Seq D13 AnyNL"
  have e: "Repeat 3 3 ?G = Seq (Seq ?G (Seq ?G (Seq ?G Epsilon))) Epsilon"
    by (rule Repeat_3_3)
  have 0: "(False, rest, k) \<in> set (ms Epsilon (False, rest, k))" by simp
  note 3 = ms_Seq_mem [OF any_group [OF assms(3)] 0]
  note 2 = ms_Seq_mem [OF any_group [OF assms(2)] 3]
  note 1 = ms_Seq_mem [OF any_group [OF assms(1)] 2]
  from ms_Seq_mem [OF 1 0] show ?thesis by (simp only: e)
qed

lemma dotted_quad_static:
  assumes "digits13 d1" "digits13 d2" "digits13 d3" "digits13 d4"
  shows "MatchString classify_re (dotted_quad d1 d2 d3 d4)"
proof -
  let ?q = "dotted_quad d1 d2 d3 d4"
  let ?st = "(True, ?q, Map.empty) :: mst"
  let ?X = "Seq (Repeat 3 3 (Seq D13 AnyNL)) D13"
  let ?C = "Seq (Group 2 (Seq (Star AnyNL) (Seq (Lit (CHR '':'')) (Star AnyNL)))) Eol"
  have t: "?q = d1 @ CHR ''.'' # d2 @ CHR ''.'' # d3 @ CHR ''.'' # (d4 @ [])"
    by (simp add: dotted_quad_def)
  from last_group [OF assms(4), of "[]" False Map.empty]
  obtain xs where "ms D13 (False, d4 @ [], Map.empty) = (False, [], Map.empty) # xs"
    by blast
  then have l: "(False, [], Map.empty) \<in> set (ms D13 (False, d4 @ [], Map.empty))"
    by (simp only: list.set_intros(1))
  have "(False, [], Map.empty) \<in> set (ms ?X ?st)"
    by (subst t) (rule ms_Seq_mem [OF three_any_groups [OF assms(1-3)] l])
  then have "ms ?X ?st \<noteq> []"
    by (metis empty_iff empty_set)
  then have "ms (Group 1 ?X) ?st \<noteq> []"
    by (simp only: ms.simps(12) map_is_Nil_conv simp_thms)
  then obtain y ys where y: "ms (Group 1 ?X) ?st = y # ys"
    by (meson neq_Nil_conv)
  have b: "ms (Seq Bol r) ?st = ms r ?st" for r
    by simp
  have c: "ms classify_re ?st = y # (ys @ ms ?C ?st)"
    by (simp only: classify_re_def ms.simps(9) b y append_Cons)
  have "search classify_re True ?q = Some (?q, y)"
    by (subst search.simps) (simp only: c list.case)
  then show ?thesis
    by (simp only: MatchString_def option.distinct simp_thms)
qed

section \<open>Facts about read, exists and update\<close>

lemma Get_address_refreshed: "Get (refreshed d a node) ''address'' = VStr a"
  by (simp add: Get_def refreshed_def str_or_def)

lemma exists_error:
  assumes "GetNode client (Id' (rd w)) (remote w) = ((n, Some e), r')"
  shows "resourceBigipLtmNodeExists client w = ((False, Some e), issue (GetNodeCall (Id' (rd w))) (Some e) r' w)"
  using assms by (simp add: resourceBigipLtmNodeExists_def)

lemma exists_not_found:
  assumes "GetNode client (Id' (rd w)) (remote w) = ((None, None), r')"
  shows "resourceBigipLtmNodeExists client w =
           ((False, None), (issue (GetNodeCall (Id' (rd w))) None r' w)\<lparr>rd := SetId (rd w) []\<rparr>)"
  using assms by (simp add: resourceBigipLtmNodeExists_def issue_def)

lemma exists_found:
  assumes "GetNode client (Id' (rd w)) (remote w) = ((Some node, None), r')"
  shows "resourceBigipLtmNodeExists client w = ((True, None), issue (GetNodeCall (Id' (rd w))) None r' w)"
  using assms by (simp add: resourceBigipLtmNodeExists_def)

lemma read_quad:
  assumes "digits13 d1" "digits13 d2" "digits13 d3" "digits13 d4" and "route_domain s"
      and "GetNode client (Id' (rd w)) (remote w) = ((Some node, None), r')"
      and "FQDN_Name node = []"
      and "Address node = dotted_quad d1 d2 d3 d4 @ s"
  shows "resourceBigipLtmNodeRead client w =
           (Ret None, (issue (GetNodeCall (Id' (rd w))) None r' w)
                        \<lparr>rd := refreshed (rd w) (dotted_quad d1 d2 d3 d4) node\<rparr>)"
proof -
  from extract_quad [OF assms(1-5)] obtain m where
    "FindStringSubmatch extract_re 1 (Address node) = [m, dotted_quad d1 d2 d3 d4]"
    by (auto simp only: assms(8))
  from read_extracted [OF assms(6,7) this] show ?thesis .
qed

lemma update_static:
  assumes "MatchString classify_re (a_address (args_of (rd w)))"
  shows "resourceBigipLtmNodeUpdate client w = resourceBigipLtmNodeRead client w"
  using assms by (simp add: resourceBigipLtmNodeUpdate_def node_payload_eq args_of_def)

lemma update_fqdn:
  assumes "\<not> MatchString classify_re (a_address (args_of (rd w)))"
  shows "resourceBigipLtmNodeUpdate client w =
           (case fst (ModifyNode client (Id' (rd w)) (payload_of (rd w) []) (remote w)) of
              Some e \<Rightarrow> (Ret (Some e),
                         issue (ModifyNodeCall (Id' (rd w)) (payload_of (rd w) []))
                           (fst (ModifyNode client (Id' (rd w)) (payload_of (rd w) []) (remote w)))
                           (snd (ModifyNode client (Id' (rd w)) (payload_of (rd w) []) (remote w))) w)
            | None \<Rightarrow> resourceBigipLtmNodeRead client
                         (issue (ModifyNodeCall (Id' (rd w)) (payload_of (rd w) []))
                           (fst (ModifyNode client (Id' (rd w)) (payload_of (rd w) []) (remote w)))
                           (snd (ModifyNode client (Id' (rd w)) (payload_of (rd w) []) (remote w))) w))"
  using assms
  by (simp add: resourceBigipLtmNodeUpdate_def node_payload_eq args_of_def Let_def case_prod_beta)

lemma read_calls:
  "map fst (drop (length (trace w)) (trace (snd (resourceBigipLtmNodeRead client w)))) =
     [GetNodeCall (Id' (rd w))]"
  using read_trace [of client w] by auto

lemma read_remote:
  "remote (snd (resourceBigipLtmNodeRead client w)) = snd (GetNode client (Id' (rd w)) (remote w))"
proof -
  obtain n e r' where g: "GetNode client (Id' (rd w)) (remote w) = ((n, e), r')"
    by (metis surj_pair)
  show ?thesis
  proof (cases e)
    case (Some err)
    with g show ?thesis by (simp add: read_error issue_def)
  next
    case None
    note e = this
    show ?thesis
    proof (cases n)
      case None
      with g e show ?thesis by (simp add: read_not_found issue_def)
    next
      case (Some node)
      show ?thesis
      proof (cases "FQDN_Name node = []")
        case False
        with g e Some show ?thesis by (simp add: read_fqdn issue_def)
      next
        case True
        from FindStringSubmatch_shape [of "Address node"] show ?thesis
        proof
          assume "FindStringSubmatch extract_re 1 (Address node) = []"
          with g e Some True show ?thesis by (simp add: read_unmatched issue_def)
        next
          assume "\<exists>m a. FindStringSubmatch extract_re 1 (Address node) = [m, a]"
          then obtain m a where "FindStringSubmatch extract_re 1 (Address node) = [m, a]" by blast
          with g e Some True show ?thesis by (simp add: read_extracted issue_def)
        qed
      qed
    qed
  qed
qed




lemma wide_separated_create:
  "map fst (trace (snd (resourceBigipLtmNodeCreate (answering (None, None) None)
      (start (node_config [] ''node1'' wide_separated []))))) =
     [CreateNodeCall ''node1'' wide_separated [] 0 0 1 [] ''user-up'', GetNodeCall ''node1'']"
  by code_simp

lemma wide_separated_update:
  "map fst (trace (snd (resourceBigipLtmNodeUpdate
      (answering (Some (remote_node ''1.2.3.4'' []), None) None)
      (start (node_config ''node1'' ''node1'' wide_separated []))))) = [GetNodeCall ''node1'']"
  by code_simp

section \<open>Update: when the remote is modified, and when read follows\<close>

text \<open>
  C1, as amended. For every update: when the address matches the classification pattern
  (a static node) the node literal is built but \<^verbatim>\<open>ModifyNode\<close> is not called, update is
  exactly a read of the unchanged world, and its only call is the \<^verbatim>\<open>GetNode\<close> of that read.
  When the address does not match, \<^verbatim>\<open>ModifyNode\<close> is called once with the literal built
  from the resource data; if it returns no error, update goes on as a read and its calls
  are that \<^verbatim>\<open>ModifyNode\<close> and then the \<^verbatim>\<open>GetNode\<close>; if it returns an error, update returns
  that error with no read after it.
\<close>

theorem update_modifies_only_fqdn_nodes:
  "(MatchString classify_re (a_address (args_of (rd w))) \<longrightarrow>
      resourceBigipLtmNodeUpdate client w = resourceBigipLtmNodeRead client w \<and>
      map fst (drop (length (trace w)) (trace (snd (resourceBigipLtmNodeUpdate client w)))) =
        [GetNodeCall (Id' (rd w))]) \<and>
   (\<not> MatchString classify_re (a_address (args_of (rd w))) \<longrightarrow>
      (fst (ModifyNode client (Id' (rd w)) (payload_of (rd w) []) (remote w)) = None \<longrightarrow>
         resourceBigipLtmNodeUpdate client w =
           resourceBigipLtmNodeRead client
             (issue (ModifyNodeCall (Id' (rd w)) (payload_of (rd w) [])) None
                (snd (ModifyNode client (Id' (rd w)) (payload_of (rd w) []) (remote w))) w) \<and>
         map fst (drop (length (trace w)) (trace (snd (resourceBigipLtmNodeUpdate client w)))) =
           [ModifyNodeCall (Id' (rd w)) (payload_of (rd w) []), GetNodeCall (Id' (rd w))]) \<and>
      (fst (ModifyNode client (Id' (rd w)) (payload_of (rd w) []) (remote w)) = Some e \<longrightarrow>
         resourceBigipLtmNodeUpdate client w =
           (Ret (Some e),
            issue (ModifyNodeCall (Id' (rd w)) (payload_of (rd w) [])) (Some e)
              (snd (ModifyNode client (Id' (rd w)) (payload_of (rd w) []) (remote w))) w)))"
proof (intro conjI impI)
  assume s: "MatchString classify_re (a_address (args_of (rd w)))"
  show "resourceBigipLtmNodeUpdate client w = resourceBigipLtmNodeRead client w"
    by (rule update_static [OF s])
  show "map fst (drop (length (trace w)) (trace (snd (resourceBigipLtmNodeUpdate client w)))) =
        [GetNodeCall (Id' (rd w))]"
    by (simp only: update_static [OF s] read_calls)
next
  let ?m = "ModifyNode client (Id' (rd w)) (payload_of (rd w) []) (remote w)"
  let ?w1 = "issue (ModifyNodeCall (Id' (rd w)) (payload_of (rd w) [])) None (snd ?m) w"
  assume f: "\<not> MatchString classify_re (a_address (args_of (rd w)))" and ok: "fst ?m = None"
  show u: "resourceBigipLtmNodeUpdate client w = resourceBigipLtmNodeRead client ?w1"
    by (simp add: update_fqdn [OF f] ok)
  from read_trace [of client ?w1] obtain x where
    "trace (snd (resourceBigipLtmNodeRead client ?w1)) = trace ?w1 @ [(GetNodeCall (Id' (rd ?w1)), x)]"
    by blast
  then show "map fst (drop (length (trace w)) (trace (snd (resourceBigipLtmNodeUpdate client w)))) =
           [ModifyNodeCall (Id' (rd w)) (payload_of (rd w) []), GetNodeCall (Id' (rd w))]"
    by (simp add: u issue_def)
next
  let ?m = "ModifyNode client (Id' (rd w)) (payload_of (rd w) []) (remote w)"
  assume f: "\<not> MatchString classify_re (a_address (args_of (rd w)))" and err: "fst ?m = Some e"
  show "resourceBigipLtmNodeUpdate client w =
           (Ret (Some e), issue (ModifyNodeCall (Id' (rd w)) (payload_of (rd w) [])) (Some e) (snd ?m) w)"
    by (simp add: update_fqdn [OF f] err)
qed

text \<open>
  The three cases at concrete inputs: the static node 10.0.0.5, and the FQDN node
  node.example.com with a remote that accepts the modification and with one that refuses it.
\<close>

theorem update_modifies_only_fqdn_nodes_witness:
  "(MatchString classify_re (a_address (args_of (rd (start (node_config ''node1'' ''node1'' ''10.0.0.5'' []))))) \<and>
    map fst (trace (snd (resourceBigipLtmNodeUpdate
        (answering (Some (remote_node ''10.0.0.5'' []), None) None)
        (start (node_config ''node1'' ''node1'' ''10.0.0.5'' []))))) = [GetNodeCall ''node1'']) \<and>
   (\<not> MatchString classify_re
        (a_address (args_of (rd (start (node_config ''node1'' ''node1'' ''node.example.com'' [default_block]))))) \<and>
    map fst (trace (snd (resourceBigipLtmNodeUpdate
        (answering (Some (remote_node [] ''node.example.com''), None) None)
        (start (node_config ''node1'' ''node1'' ''node.example.com'' [default_block]))))) =
      [ModifyNodeCall ''node1'' (remote_node [] []), GetNodeCall ''node1''] \<and>
    fst (resourceBigipLtmNodeUpdate
        (answering (Some (remote_node [] ''node.example.com''), None) (Some (RemoteError ''refused'')))
        (start (node_config ''node1'' ''node1'' ''node.example.com'' [default_block]))) =
      Ret (Some (RemoteError ''refused'')))"
proof -
  let ?ws = "start (node_config ''node1'' ''node1'' ''10.0.0.5'' [])"
  let ?wf = "start (node_config ''node1'' ''node1'' ''node.example.com'' [default_block])"
  let ?ok = "answering (Some (remote_node [] ''node.example.com''), None) None"
  let ?no = "answering (Some (remote_node [] ''node.example.com''), None) (Some (RemoteError ''refused''))"
  have s: "MatchString classify_re (a_address (args_of (rd ?ws)))"
    by code_simp
  have f: "\<not> MatchString classify_re (a_address (args_of (rd ?wf)))"
    by code_simp
  have ok: "fst (ModifyNode ?ok (Id' (rd ?wf)) (payload_of (rd ?wf) []) (remote ?wf)) = None"
    by code_simp
  have no: "fst (ModifyNode ?no (Id' (rd ?wf)) (payload_of (rd ?wf) []) (remote ?wf)) =
              Some (RemoteError ''refused'')"
    by code_simp
  have p: "payload_of (rd ?wf) [] = remote_node [] []"
    by code_simp
  have i: "Id' (rd ?ws) = ''node1''" "Id' (rd ?wf) = ''node1''" "trace ?ws = []" "trace ?wf = []"
    by (simp_all add: start_def node_config_def)
  from update_modifies_only_fqdn_nodes
         [where w = ?ws and client = "answering (Some (remote_node ''10.0.0.5'' []), None) None"] s
  have "map fst (drop (length (trace ?ws)) (trace (snd (resourceBigipLtmNodeUpdate
             (answering (Some (remote_node ''10.0.0.5'' []), None) None) ?ws)))) =
          [GetNodeCall (Id' (rd ?ws))]"
    by blast
  then have 1: "map fst (trace (snd (resourceBigipLtmNodeUpdate
             (answering (Some (remote_node ''10.0.0.5'' []), None) None) ?ws))) = [GetNodeCall ''node1'']"
    by (simp only: i list.size drop_0)
  from update_modifies_only_fqdn_nodes [where w = ?wf and client = ?ok] f ok
  have "map fst (drop (length (trace ?wf)) (trace (snd (resourceBigipLtmNodeUpdate ?ok ?wf)))) =
          [ModifyNodeCall (Id' (rd ?wf)) (payload_of (rd ?wf) []), GetNodeCall (Id' (rd ?wf))]"
    by blast
  then have 2: "map fst (trace (snd (resourceBigipLtmNodeUpdate ?ok ?wf))) =
             [ModifyNodeCall ''node1'' (remote_node [] []), GetNodeCall ''node1'']"
    by (simp only: i p list.size drop_0)
  from update_modifies_only_fqdn_nodes
         [where w = ?wf and client = ?no and e = "RemoteError ''refused''"] f no
  have "resourceBigipLtmNodeUpdate ?no ?wf =
          (Ret (Some (RemoteError ''refused'')),
           issue (ModifyNodeCall (Id' (rd ?wf)) (payload_of (rd ?wf) [])) (Some (RemoteError ''refused''))
             (snd (ModifyNode ?no (Id' (rd ?wf)) (payload_of (rd ?wf) []) (remote ?wf))) ?wf)"
    by blast
  then have 3: "fst (resourceBigipLtmNodeUpdate ?no ?wf) = Ret (Some (RemoteError ''refused''))"
    by (simp only: fst_conv)
  from s f 1 2 3 show ?thesis by blast
qed

text \<open>
  C1 as stated ("in both branches update always concludes by invoking read") fails where
  \<^verbatim>\<open>ModifyNode\<close> returns an error: update of the FQDN node node.example.com against a
  remote that refuses the modification returns the error, and the one call it made is the
  \<^verbatim>\<open>ModifyNode\<close>; no \<^verbatim>\<open>GetNode\<close> follows and the resource data is as before.
\<close>

theorem update_modify_failure_skips_read:
  "resourceBigipLtmNodeUpdate
      (answering (Some (remote_node [] ''node.example.com''), None) (Some (RemoteError ''refused'')))
      (start (node_config ''node1'' ''node1'' ''node.example.com'' [default_block])) =
   (Ret (Some (RemoteError ''refused'')),
    \<lparr>rd = node_config ''node1'' ''node1'' ''node.example.com'' [default_block], remote = (),
     trace = [(ModifyNodeCall ''node1'' (remote_node [] []), Some (RemoteError ''refused''))]\<rparr>)"
  by code_simp

section \<open>Create: which call an address is routed to\<close>

text \<open>
  C2. The claim routes an address to the static create call exactly when the
  specification's pattern matches it. The pattern of the code has an unescaped dot, which
  stands for any character, so it also takes host names that begin with digit groups set
  apart by other characters. The host name 10-0-0-5.example.com has no colon and is no
  dotted quad, and the specification's pattern does not match it; the code's pattern does,
  and create, here with one \<^verbatim>\<open>fqdn\<close> block configured, calls \<^verbatim>\<open>CreateNode\<close> and then reads.
\<close>

theorem create_hyphen_hostname_goes_static:
  "\<not> MatchString spec_classify_re ''10-0-0-5.example.com'' \<and>
   MatchString classify_re ''10-0-0-5.example.com'' \<and>
   map fst (trace (snd (resourceBigipLtmNodeCreate (answering (None, None) None)
      (start (node_config [] ''node1'' ''10-0-0-5.example.com'' [default_block]))))) =
     [CreateNodeCall ''node1'' ''10-0-0-5.example.com'' [] 0 0 1 [] ''user-up'',
      GetNodeCall ''node1'']"
  by code_simp

section \<open>Read: an address that the extraction pattern does not match\<close>

text \<open>
  C3. The claim wants a read whose remote address the extraction pattern does not match
  to return an error, the index into the match being guarded. The code indexes the nil
  slice: for the IPv6 node 2001:db8::1 (an address that create accepts as static) with no
  FQDN name, read panics with an index out of range after its \<^verbatim>\<open>GetNode\<close>, and returns no
  error value. The resource data is as it was.
\<close>

theorem read_ipv6_address_panics:
  "resourceBigipLtmNodeRead (answering (Some (remote_node ''2001:db8::1'' []), None) None)
      (start (node_config ''node1'' ''node1'' ''2001:db8::1'' [])) =
   (Panic ''index out of range'',
    \<lparr>rd = node_config ''node1'' ''node1'' ''2001:db8::1'' [], remote = (),
     trace = [(GetNodeCall ''node1'', None)]\<rparr>)"
  by code_simp

section \<open>Create: the values of an fqdn block\<close>

text \<open>
  C4. The claim has every FQDN create call carry the block's interval, down_interval and
  autopopulate. The schema declares the third attribute as \<^verbatim>\<open>autopopulate\<close>; the loop reads
  \<^verbatim>\<open>auto_populate\<close>, a key the schema does not declare, so \<^verbatim>\<open>Get\<close> returns nil and the
  assertion to string panics. Create of the FQDN node node.example.com with one block
  whose autopopulate is "enabled" panics before any call is issued: no create call
  carries the configured value.
\<close>

theorem create_fqdn_block_panics:
  "resourceBigipLtmNodeCreate (answering (None, None) None)
      (start (node_config [] ''node1'' ''node.example.com''
                [default_block\<lparr>autopopulate := Some ''enabled''\<rparr>])) =
   (Panic ''interface conversion: not string'',
    start (node_config [] ''node1'' ''node.example.com''
             [default_block\<lparr>autopopulate := Some ''enabled''\<rparr>]))"
  by code_simp

section \<open>Create: a failed create call\<close>



section \<open>Read and exists: a node that the remote does not know\<close>

text \<open>
  C6. When \<^verbatim>\<open>GetNode\<close> returns the nil node without an error, read returns nil after
  clearing the identifier, and exists returns false and nil, clearing the identifier too.
  A second call, which asks for the cleared identifier, has the same outcome and changes
  nothing in the resource data whenever the remote does not know that identifier either.
  When \<^verbatim>\<open>GetNode\<close> returns an error, read returns it and exists returns false with it. When
  \<^verbatim>\<open>GetNode\<close> returns a node, exists returns true and nil.
\<close>

theorem not_found_is_not_an_error:
  "(GetNode client (Id' (rd w)) (remote w) = ((None, None), r') \<longrightarrow>
      resourceBigipLtmNodeRead client w =
        (Ret None, (issue (GetNodeCall (Id' (rd w))) None r' w)\<lparr>rd := SetId (rd w) []\<rparr>) \<and>
      resourceBigipLtmNodeExists client w =
        ((False, None), (issue (GetNodeCall (Id' (rd w))) None r' w)\<lparr>rd := SetId (rd w) []\<rparr>) \<and>
      (GetNode client [] r' = ((None, None), r'') \<longrightarrow>
         fst (resourceBigipLtmNodeRead client (snd (resourceBigipLtmNodeRead client w))) = Ret None \<and>
         rd (snd (resourceBigipLtmNodeRead client (snd (resourceBigipLtmNodeRead client w)))) =
           rd (snd (resourceBigipLtmNodeRead client w)) \<and>
         fst (resourceBigipLtmNodeExists client (snd (resourceBigipLtmNodeExists client w))) =
           (False, None) \<and>
         rd (snd (resourceBigipLtmNodeExists client (snd (resourceBigipLtmNodeExists client w)))) =
           rd (snd (resourceBigipLtmNodeExists client w)))) \<and>
   (GetNode client (Id' (rd w)) (remote w) = ((n, Some e), r') \<longrightarrow>
      fst (resourceBigipLtmNodeRead client w) = Ret (Some e) \<and>
      fst (resourceBigipLtmNodeExists client w) = (False, Some e)) \<and>
   (GetNode client (Id' (rd w)) (remote w) = ((Some node, None), r') \<longrightarrow>
      fst (resourceBigipLtmNodeExists client w) = (True, None))"
proof (intro conjI impI)
  assume g: "GetNode client (Id' (rd w)) (remote w) = ((None, None), r')"
  let ?w1 = "(issue (GetNodeCall (Id' (rd w))) None r' w)\<lparr>rd := SetId (rd w) []\<rparr>"
  from g show r: "resourceBigipLtmNodeRead client w = (Ret None, ?w1)"
    by (rule read_not_found)
  from g show x: "resourceBigipLtmNodeExists client w = ((False, None), ?w1)"
    by (rule exists_not_found)
  assume "GetNode client [] r' = ((None, None), r'')"
  then have g2: "GetNode client (Id' (rd ?w1)) (remote ?w1) = ((None, None), r'')"
    by (simp add: issue_def SetId_def)
  from read_not_found [OF g2]
  show "fst (resourceBigipLtmNodeRead client (snd (resourceBigipLtmNodeRead client w))) = Ret None"
    and "rd (snd (resourceBigipLtmNodeRead client (snd (resourceBigipLtmNodeRead client w)))) =
           rd (snd (resourceBigipLtmNodeRead client w))"
    by (simp_all add: r issue_def SetId_def)
  from exists_not_found [OF g2]
  show "fst (resourceBigipLtmNodeExists client (snd (resourceBigipLtmNodeExists client w))) =
          (False, None)"
    and "rd (snd (resourceBigipLtmNodeExists client (snd (resourceBigipLtmNodeExists client w)))) =
           rd (snd (resourceBigipLtmNodeExists client w))"
    by (simp_all add: x issue_def SetId_def)
next
  assume g: "GetNode client (Id' (rd w)) (remote w) = ((n, Some e), r')"
  from read_error [OF g] show "fst (resourceBigipLtmNodeRead client w) = Ret (Some e)"
    by simp
  from exists_error [OF g] show "fst (resourceBigipLtmNodeExists client w) = (False, Some e)"
    by simp
next
  assume g: "GetNode client (Id' (rd w)) (remote w) = ((Some node, None), r')"
  from exists_found [OF g] show "fst (resourceBigipLtmNodeExists client w) = (True, None)"
    by simp
qed

text \<open>
  The identifier node1 against a remote that does not know it, one that fails, and one
  that has the node.
\<close>

theorem not_found_is_not_an_error_witness:
  "(GetNode (answering (None, None) None) ''node1'' () = ((None, None), ()) \<and>
    GetNode (answering (None, None) None) [] () = ((None, None), ()) \<and>
    fst (resourceBigipLtmNodeRead (answering (None, None) None)
           (start (node_config ''node1'' ''node1'' ''10.0.0.5'' []))) = Ret None \<and>
    Id' (rd (snd (resourceBigipLtmNodeRead (answering (None, None) None)
           (start (node_config ''node1'' ''node1'' ''10.0.0.5'' []))))) = [] \<and>
    fst (resourceBigipLtmNodeExists (answering (None, None) None)
           (start (node_config ''node1'' ''node1'' ''10.0.0.5'' []))) = (False, None) \<and>
    fst (resourceBigipLtmNodeRead (answering (None, None) None)
           (snd (resourceBigipLtmNodeRead (answering (None, None) None)
                   (start (node_config ''node1'' ''node1'' ''10.0.0.5'' []))))) = Ret None) \<and>
   (GetNode (answering (None, Some (RemoteError ''timeout'')) None) ''node1'' () =
      ((None, Some (RemoteError ''timeout'')), ()) \<and>
    fst (resourceBigipLtmNodeRead (answering (None, Some (RemoteError ''timeout'')) None)
           (start (node_config ''node1'' ''node1'' ''10.0.0.5'' []))) =
      Ret (Some (RemoteError ''timeout'')) \<and>
    fst (resourceBigipLtmNodeExists (answering (None, Some (RemoteError ''timeout'')) None)
           (start (node_config ''node1'' ''node1'' ''10.0.0.5'' []))) =
      (False, Some (RemoteError ''timeout''))) \<and>
   (GetNode (answering (Some (remote_node ''10.0.0.5'' []), None) None) ''node1'' () =
      ((Some (remote_node ''10.0.0.5'' []), None), ()) \<and>
    fst (resourceBigipLtmNodeExists (answering (Some (remote_node ''10.0.0.5'' []), None) None)
           (start (node_config ''node1'' ''node1'' ''10.0.0.5'' []))) = (True, None))"
proof -
  let ?w = "start (node_config ''node1'' ''node1'' ''10.0.0.5'' [])"
  let ?nf = "answering (None, None) None"
  let ?er = "answering (None, Some (RemoteError ''timeout'')) None"
  let ?ok = "answering (Some (remote_node ''10.0.0.5'' []), None) None"
  have i: "Id' (rd ?w) = ''node1''" "remote ?w = ()"
    by (simp_all add: start_def node_config_def)
  have g1: "GetNode ?nf ''node1'' () = ((None, None), ())"
    and g1': "GetNode ?nf [] () = ((None, None), ())"
    and g2: "GetNode ?er ''node1'' () = ((None, Some (RemoteError ''timeout'')), ())"
    and g3: "GetNode ?ok ''node1'' () = ((Some (remote_node ''10.0.0.5'' []), None), ())"
    by (simp_all add: answering_def)
  note t1 = not_found_is_not_an_error
    [where client = ?nf and w = ?w and r' = "()" and r'' = "()", unfolded i]
  from t1 g1 g1' have a: "resourceBigipLtmNodeRead ?nf ?w =
        (Ret None, (issue (GetNodeCall ''node1'') None () ?w)\<lparr>rd := SetId (rd ?w) []\<rparr>)"
    and b0: "resourceBigipLtmNodeExists ?nf ?w =
        ((False, None), (issue (GetNodeCall ''node1'') None () ?w)\<lparr>rd := SetId (rd ?w) []\<rparr>)"
    and c: "fst (resourceBigipLtmNodeRead ?nf (snd (resourceBigipLtmNodeRead ?nf ?w))) = Ret None"
    by blast+
  from b0 have b: "fst (resourceBigipLtmNodeExists ?nf ?w) = (False, None)"
    by (simp only: fst_conv)
  from a have a1: "fst (resourceBigipLtmNodeRead ?nf ?w) = Ret None"
    by (simp only: fst_conv)
  have "Id' (rd ((issue (GetNodeCall ''node1'') None () ?w)\<lparr>rd := SetId (rd ?w) []\<rparr>)) = []"
    by (simp add: SetId_def)
  with a have a2: "Id' (rd (snd (resourceBigipLtmNodeRead ?nf ?w))) = []"
    by (simp only: snd_conv)
  note t2 = not_found_is_not_an_error
    [where client = ?er and w = ?w and r' = "()" and n = None and e = "RemoteError ''timeout''",
     unfolded i]
  from t2 g2 have d: "fst (resourceBigipLtmNodeRead ?er ?w) = Ret (Some (RemoteError ''timeout''))"
    and e: "fst (resourceBigipLtmNodeExists ?er ?w) = (False, Some (RemoteError ''timeout''))"
    by blast+
  note t3 = not_found_is_not_an_error
    [where client = ?ok and w = ?w and r' = "()" and node = "remote_node ''10.0.0.5'' []",
     unfolded i]
  from t3 g3 have f: "fst (resourceBigipLtmNodeExists ?ok ?w) = (True, None)"
    by blast
  from g1 g1' a1 a2 b c g2 d e g3 f show ?thesis by blast
qed

section \<open>Read: the address written to the resource data\<close>

text \<open>
  C7. When the remote reports a node with a non-empty FQDN name, read succeeds and the
  address of the resource data afterwards is that FQDN name, whatever the node's own
  address field holds.
\<close>

theorem read_fqdn_name_precedence:
  assumes "GetNode client (Id' (rd w)) (remote w) = ((Some node, None), r')"
      and "FQDN_Name node \<noteq> []"
  shows "fst (resourceBigipLtmNodeRead client w) = Ret None \<and>
         Get (rd (snd (resourceBigipLtmNodeRead client w))) ''address'' = VStr (FQDN_Name node)"
  by (simp add: read_fqdn [OF assms] Get_address_refreshed)

text \<open>A node that reports both the FQDN name foo.example.com and the raw address 10.0.0.9.\<close>

theorem read_fqdn_name_precedence_witness:
  "GetNode (answering (Some (remote_node ''10.0.0.9'' ''foo.example.com''), None) None)
      (Id' (rd (start (node_config ''node1'' ''node1'' ''foo.example.com'' []))))
      (remote (start (node_config ''node1'' ''node1'' ''foo.example.com'' []))) =
     ((Some (remote_node ''10.0.0.9'' ''foo.example.com''), None), ()) \<and>
   FQDN_Name (remote_node ''10.0.0.9'' ''foo.example.com'') \<noteq> [] \<and>
   Address (remote_node ''10.0.0.9'' ''foo.example.com'') = ''10.0.0.9'' \<and>
   fst (resourceBigipLtmNodeRead
          (answering (Some (remote_node ''10.0.0.9'' ''foo.example.com''), None) None)
          (start (node_config ''node1'' ''node1'' ''foo.example.com'' []))) = Ret None \<and>
   Get (rd (snd (resourceBigipLtmNodeRead
          (answering (Some (remote_node ''10.0.0.9'' ''foo.example.com''), None) None)
          (start (node_config ''node1'' ''node1'' ''foo.example.com'' []))))) ''address'' =
     VStr ''foo.example.com''"
proof -
  let ?n = "remote_node ''10.0.0.9'' ''foo.example.com''"
  let ?c = "answering (Some ?n, None) None"
  let ?w = "start (node_config ''node1'' ''node1'' ''foo.example.com'' [])"
  have h1: "GetNode ?c (Id' (rd ?w)) (remote ?w) = ((Some ?n, None), ())"
    by (simp add: answering_def)
  have h2: "FQDN_Name ?n \<noteq> []"
    by (simp add: remote_node_def)
  have f: "FQDN_Name ?n = ''foo.example.com''" and a: "Address ?n = ''10.0.0.9''"
    by (simp_all add: remote_node_def)
  from read_fqdn_name_precedence [OF h1 h2]
  have "fst (resourceBigipLtmNodeRead ?c ?w) = Ret None"
    and "Get (rd (snd (resourceBigipLtmNodeRead ?c ?w))) ''address'' = VStr ''foo.example.com''"
    by (simp_all only: f)
  with h1 h2 a show ?thesis by blast
qed

text \<open>
  C8. Let the remote report a node without FQDN name whose address is a dotted quad
  followed by nothing or by a route-domain suffix (a percent sign and digits). Then read
  succeeds and the address of the resource data afterwards is exactly the dotted quad.
  The same holds at the end of create: when the configured address is that dotted quad,
  \<^verbatim>\<open>CreateNode\<close> succeeds and the remote then reports such a node, create succeeds and the
  address is the dotted quad. The witness below is the remote address 10.0.0.5%2, read
  back as 10.0.0.5, also by a create with the address 10.0.0.5.
\<close>

theorem read_strips_route_domain:
  assumes "digits13 d1" "digits13 d2" "digits13 d3" "digits13 d4" and "route_domain s"
      and "FQDN_Name node = []"
      and "Address node = dotted_quad d1 d2 d3 d4 @ s"
  shows "(GetNode client (Id' (rd w)) (remote w) = ((Some node, None), r') \<longrightarrow>
            fst (resourceBigipLtmNodeRead client w) = Ret None \<and>
            Get (rd (snd (resourceBigipLtmNodeRead client w))) ''address'' =
              VStr (dotted_quad d1 d2 d3 d4)) \<and>
         (address (rd w) = Some (dotted_quad d1 d2 d3 d4) \<and>
          CreateNode client (a_name (args_of (rd w))) (dotted_quad d1 d2 d3 d4)
             (a_rate_limit (args_of (rd w))) (a_connection_limit (args_of (rd w)))
             (a_dynamic_ratio (args_of (rd w))) (a_ratio (args_of (rd w)))
             (a_monitor (args_of (rd w))) (a_state (args_of (rd w))) (remote w) = (None, r1) \<and>
          GetNode client (a_name (args_of (rd w))) r1 = ((Some node, None), r2) \<longrightarrow>
            fst (resourceBigipLtmNodeCreate client w) = Ret None \<and>
            Get (rd (snd (resourceBigipLtmNodeCreate client w))) ''address'' =
              VStr (dotted_quad d1 d2 d3 d4))"
proof (intro conjI impI)
  assume g: "GetNode client (Id' (rd w)) (remote w) = ((Some node, None), r')"
  from read_quad [OF assms(1-5) g assms(6,7)]
  show "fst (resourceBigipLtmNodeRead client w) = Ret None"
    and "Get (rd (snd (resourceBigipLtmNodeRead client w))) ''address'' =
           VStr (dotted_quad d1 d2 d3 d4)"
    by (simp_all add: Get_address_refreshed)
next
  let ?a = "args_of (rd w)"
  let ?q = "dotted_quad d1 d2 d3 d4"
  assume h: "address (rd w) = Some ?q \<and>
          CreateNode client (a_name ?a) ?q (a_rate_limit ?a) (a_connection_limit ?a)
             (a_dynamic_ratio ?a) (a_ratio ?a) (a_monitor ?a) (a_state ?a) (remote w) = (None, r1) \<and>
          GetNode client (a_name ?a) r1 = ((Some node, None), r2)"
  then have q: "a_address ?a = ?q"
    by (simp add: args_of_def)
  from dotted_quad_static [OF assms(1-4)] q have st: "MatchString classify_re (a_address ?a)"
    by simp
  let ?w1 = "(issue (CreateNodeCall (a_name ?a) (a_address ?a) (a_rate_limit ?a)
                  (a_connection_limit ?a) (a_dynamic_ratio ?a) (a_ratio ?a) (a_monitor ?a)
                  (a_state ?a)) None r1 w)\<lparr>rd := SetId (rd w) (a_name ?a)\<rparr>"
  from h q have c: "resourceBigipLtmNodeCreate client w = resourceBigipLtmNodeRead client ?w1"
    by (simp add: resourceBigipLtmNodeCreate_def create_args_eq create_calls_static [OF st] issue_def)
  from h have g: "GetNode client (Id' (rd ?w1)) (remote ?w1) = ((Some node, None), r2)"
    by (simp add: issue_def SetId_def)
  from read_quad [OF assms(1-5) g assms(6,7)]
  show "fst (resourceBigipLtmNodeCreate client w) = Ret None"
    and "Get (rd (snd (resourceBigipLtmNodeCreate client w))) ''address'' = VStr ?q"
    by (simp_all add: c Get_address_refreshed)
qed

theorem read_strips_route_domain_witness:
  "digits13 ''10'' \<and> digits13 ''0'' \<and> digits13 ''5'' \<and> route_domain ''%2'' \<and>
   FQDN_Name (remote_node ''10.0.0.5%2'' []) = [] \<and>
   Address (remote_node ''10.0.0.5%2'' []) = dotted_quad ''10'' ''0'' ''0'' ''5'' @ ''%2'' \<and>
   dotted_quad ''10'' ''0'' ''0'' ''5'' = ''10.0.0.5'' \<and>
   GetNode (answering (Some (remote_node ''10.0.0.5%2'' []), None) None) ''node1'' () =
     ((Some (remote_node ''10.0.0.5%2'' []), None), ()) \<and>
   CreateNode (answering (Some (remote_node ''10.0.0.5%2'' []), None) None)
     ''node1'' ''10.0.0.5'' [] 0 0 1 [] ''user-up'' () = (None, ()) \<and>
   fst (resourceBigipLtmNodeRead (answering (Some (remote_node ''10.0.0.5%2'' []), None) None)
          (start (node_config ''node1'' ''node1'' [] []))) = Ret None \<and>
   Get (rd (snd (resourceBigipLtmNodeRead
          (answering (Some (remote_node ''10.0.0.5%2'' []), None) None)
          (start (node_config ''node1'' ''node1'' [] []))))) ''address'' = VStr ''10.0.0.5'' \<and>
   fst (resourceBigipLtmNodeCreate (answering (Some (remote_node ''10.0.0.5%2'' []), None) None)
          (start (node_config [] ''node1'' ''10.0.0.5'' []))) = Ret None \<and>
   Get (rd (snd (resourceBigipLtmNodeCreate
          (answering (Some (remote_node ''10.0.0.5%2'' []), None) None)
          (start (node_config [] ''node1'' ''10.0.0.5'' []))))) ''address'' = VStr ''10.0.0.5''"
proof -
  let ?n = "remote_node ''10.0.0.5%2'' []"
  let ?c = "answering (Some ?n, None) None"
  let ?wr = "start (node_config ''node1'' ''node1'' [] [])"
  let ?wc = "start (node_config [] ''node1'' ''10.0.0.5'' [])"
  have d: "digits13 ''10''" "digits13 ''0''" "digits13 ''5''"
    by (simp_all add: digits13_def is_digit_def in_range_def)
  have r: "route_domain ''%2''"
    by (simp add: route_domain_def is_digit_def in_range_def)
  have f: "FQDN_Name ?n = []"
    by (simp add: remote_node_def)
  have a: "Address ?n = dotted_quad ''10'' ''0'' ''0'' ''5'' @ ''%2''"
    by (simp add: remote_node_def dotted_quad_def)
  have q: "dotted_quad ''10'' ''0'' ''0'' ''5'' = ''10.0.0.5''"
    by (simp add: dotted_quad_def)
  have g: "GetNode ?c ''node1'' () = ((Some ?n, None), ())"
    and cr: "CreateNode ?c ''node1'' ''10.0.0.5'' [] 0 0 1 [] ''user-up'' () = (None, ())"
    by (simp_all add: answering_def)
  have gr: "GetNode ?c (Id' (rd ?wr)) (remote ?wr) = ((Some ?n, None), ())"
    by (simp add: answering_def)
  have hc: "address (rd ?wc) = Some (dotted_quad ''10'' ''0'' ''0'' ''5'') \<and>
          CreateNode ?c (a_name (args_of (rd ?wc))) (dotted_quad ''10'' ''0'' ''0'' ''5'')
             (a_rate_limit (args_of (rd ?wc))) (a_connection_limit (args_of (rd ?wc)))
             (a_dynamic_ratio (args_of (rd ?wc))) (a_ratio (args_of (rd ?wc)))
             (a_monitor (args_of (rd ?wc))) (a_state (args_of (rd ?wc))) (remote ?wc) = (None, ()) \<and>
          GetNode ?c (a_name (args_of (rd ?wc))) () = ((Some ?n, None), ())"
    by (simp add: answering_def start_def node_config_def dotted_quad_def)
  from read_strips_route_domain [OF d(1) d(2) d(2) d(3) r f a,
         where client = ?c and w = ?wr and r' = "()"] gr
  have 1: "fst (resourceBigipLtmNodeRead ?c ?wr) = Ret None"
    and 2: "Get (rd (snd (resourceBigipLtmNodeRead ?c ?wr))) ''address'' =
              VStr (dotted_quad ''10'' ''0'' ''0'' ''5'')"
    by blast+
  from read_strips_route_domain [OF d(1) d(2) d(2) d(3) r f a,
         where client = ?c and w = ?wc and ?r1.0 = "()" and ?r2.0 = "()"] hc
  have 3: "fst (resourceBigipLtmNodeCreate ?c ?wc) = Ret None"
    and 4: "Get (rd (snd (resourceBigipLtmNodeCreate ?c ?wc))) ''address'' =
              VStr (dotted_quad ''10'' ''0'' ''0'' ''5'')"
    by blast+
  from d r f a q g cr 1 2 [unfolded q] 3 4 [unfolded q] show ?thesis
    by blast
qed

section \<open>Update of a static node: the address\<close>

text \<open>
  C9, as amended. For every update of a node whose address is classified static, update
  issues no \<^verbatim>\<open>ModifyNode\<close>: its only call is the \<^verbatim>\<open>GetNode\<close> of the concluding read, and the
  remote is left as that \<^verbatim>\<open>GetNode\<close> leaves it. The address of the resource data
  afterwards is the one read takes from the remote; it equals the address before the
  update whenever that address is a dotted quad and the remote reports a node without FQDN
  name whose address is the same dotted quad, with or without a route-domain suffix.
\<close>

theorem update_static_address_frame:
  assumes "MatchString classify_re (a_address (args_of (rd w)))"
  shows "map fst (drop (length (trace w)) (trace (snd (resourceBigipLtmNodeUpdate client w)))) =
           [GetNodeCall (Id' (rd w))] \<and>
         remote (snd (resourceBigipLtmNodeUpdate client w)) =
           snd (GetNode client (Id' (rd w)) (remote w)) \<and>
         (digits13 d1 \<and> digits13 d2 \<and> digits13 d3 \<and> digits13 d4 \<and> route_domain s \<and>
          Get (rd w) ''address'' = VStr (dotted_quad d1 d2 d3 d4) \<and>
          GetNode client (Id' (rd w)) (remote w) = ((Some node, None), r') \<and>
          FQDN_Name node = [] \<and> Address node = dotted_quad d1 d2 d3 d4 @ s \<longrightarrow>
            fst (resourceBigipLtmNodeUpdate client w) = Ret None \<and>
            Get (rd (snd (resourceBigipLtmNodeUpdate client w))) ''address'' =
              Get (rd w) ''address'')"
proof (intro conjI impI)
  show "map fst (drop (length (trace w)) (trace (snd (resourceBigipLtmNodeUpdate client w)))) =
           [GetNodeCall (Id' (rd w))]"
    by (simp only: update_static [OF assms] read_calls)
  show "remote (snd (resourceBigipLtmNodeUpdate client w)) =
          snd (GetNode client (Id' (rd w)) (remote w))"
    by (simp only: update_static [OF assms] read_remote)
next
  assume h: "digits13 d1 \<and> digits13 d2 \<and> digits13 d3 \<and> digits13 d4 \<and> route_domain s \<and>
          Get (rd w) ''address'' = VStr (dotted_quad d1 d2 d3 d4) \<and>
          GetNode client (Id' (rd w)) (remote w) = ((Some node, None), r') \<and>
          FQDN_Name node = [] \<and> Address node = dotted_quad d1 d2 d3 d4 @ s"
  then have r: "resourceBigipLtmNodeRead client w =
           (Ret None, (issue (GetNodeCall (Id' (rd w))) None r' w)
                        \<lparr>rd := refreshed (rd w) (dotted_quad d1 d2 d3 d4) node\<rparr>)"
    by (intro read_quad) simp_all
  from h have a: "Get (rd w) ''address'' = VStr (dotted_quad d1 d2 d3 d4)"
    by simp
  show "fst (resourceBigipLtmNodeUpdate client w) = Ret None"
    by (simp add: update_static [OF assms] r)
  show "Get (rd (snd (resourceBigipLtmNodeUpdate client w))) ''address'' = Get (rd w) ''address''"
    by (simp add: update_static [OF assms] r a Get_address_refreshed)
qed

text \<open>
  The static node 10.0.0.5, which the remote reports in route domain 2: the update makes
  the one call and leaves the address 10.0.0.5.
\<close>

theorem update_static_address_frame_witness:
  "MatchString classify_re
     (a_address (args_of (rd (start (node_config ''node1'' ''node1'' ''10.0.0.5'' []))))) \<and>
   digits13 ''10'' \<and> digits13 ''0'' \<and> digits13 ''5'' \<and> route_domain ''%2'' \<and>
   Get (rd (start (node_config ''node1'' ''node1'' ''10.0.0.5'' []))) ''address'' =
     VStr (dotted_quad ''10'' ''0'' ''0'' ''5'') \<and>
   GetNode (answering (Some (remote_node ''10.0.0.5%2'' []), None) None) ''node1'' () =
     ((Some (remote_node ''10.0.0.5%2'' []), None), ()) \<and>
   FQDN_Name (remote_node ''10.0.0.5%2'' []) = [] \<and>
   Address (remote_node ''10.0.0.5%2'' []) = dotted_quad ''10'' ''0'' ''0'' ''5'' @ ''%2'' \<and>
   map fst (trace (snd (resourceBigipLtmNodeUpdate
        (answering (Some (remote_node ''10.0.0.5%2'' []), None) None)
        (start (node_config ''node1'' ''node1'' ''10.0.0.5'' []))))) = [GetNodeCall ''node1''] \<and>
   fst (resourceBigipLtmNodeUpdate (answering (Some (remote_node ''10.0.0.5%2'' []), None) None)
        (start (node_config ''node1'' ''node1'' ''10.0.0.5'' []))) = Ret None \<and>
   Get (rd (snd (resourceBigipLtmNodeUpdate
        (answering (Some (remote_node ''10.0.0.5%2'' []), None) None)
        (start (node_config ''node1'' ''node1'' ''10.0.0.5'' []))))) ''address'' = VStr ''10.0.0.5''"
proof -
  let ?n = "remote_node ''10.0.0.5%2'' []"
  let ?c = "answering (Some ?n, None) None"
  let ?w = "start (node_config ''node1'' ''node1'' ''10.0.0.5'' [])"
  have s: "MatchString classify_re (a_address (args_of (rd ?w)))"
    by code_simp
  have d: "digits13 ''10''" "digits13 ''0''" "digits13 ''5''"
    by (simp_all add: digits13_def is_digit_def in_range_def)
  have r: "route_domain ''%2''"
    by (simp add: route_domain_def is_digit_def in_range_def)
  have f: "FQDN_Name ?n = []"
    by (simp add: remote_node_def)
  have a: "Address ?n = dotted_quad ''10'' ''0'' ''0'' ''5'' @ ''%2''"
    by (simp add: remote_node_def dotted_quad_def)
  have l: "Get (rd ?w) ''address'' = VStr (dotted_quad ''10'' ''0'' ''0'' ''5'')"
    by (simp add: start_def node_config_def Get_def str_or_def dotted_quad_def)
  have l': "Get (rd ?w) ''address'' = VStr ''10.0.0.5''"
    by (simp add: start_def node_config_def Get_def str_or_def)
  have g: "GetNode ?c ''node1'' () = ((Some ?n, None), ())"
    by (simp add: answering_def)
  have i: "Id' (rd ?w) = ''node1''" "remote ?w = ()" "trace ?w = []"
    by (simp_all add: start_def node_config_def)
  note t = update_static_address_frame
    [OF s, where client = ?c and ?d1.0 = "''10''" and ?d2.0 = "''0''" and ?d3.0 = "''0''"
       and ?d4.0 = "''5''" and s = "''%2''" and node = ?n and r' = "()", unfolded i]
  from t [THEN conjunct1]
  have 1: "map fst (trace (snd (resourceBigipLtmNodeUpdate ?c ?w))) = [GetNodeCall ''node1'']"
    by (simp only: list.size drop_0)
  have h: "digits13 ''10'' \<and> digits13 ''0'' \<and> digits13 ''0'' \<and> digits13 ''5'' \<and> route_domain ''%2'' \<and>
          Get (rd ?w) ''address'' = VStr (dotted_quad ''10'' ''0'' ''0'' ''5'') \<and>
          GetNode ?c ''node1'' () = ((Some ?n, None), ()) \<and>
          FQDN_Name ?n = [] \<and> Address ?n = dotted_quad ''10'' ''0'' ''0'' ''5'' @ ''%2''"
    by (intro conjI d r l g f a)
  note u = t [THEN conjunct2, THEN conjunct2, THEN mp, OF h]
  from u have 2: "fst (resourceBigipLtmNodeUpdate ?c ?w) = Ret None"
    by (rule conjunct1)
  from u have "Get (rd (snd (resourceBigipLtmNodeUpdate ?c ?w))) ''address'' = Get (rd ?w) ''address''"
    by (rule conjunct2)
  then have 3: "Get (rd (snd (resourceBigipLtmNodeUpdate ?c ?w))) ''address'' = VStr ''10.0.0.5''"
    by (simp only: l')
  from s d r l g f a 1 2 3 show ?thesis
    by (intro conjI)
qed

text \<open>
  C9 as stated fails: the concluding read refreshes the address from the remote. The
  static node 10.0.0.5, which the remote now reports at 10.0.0.6, has the address
  10.0.0.6 after the update.
\<close>

theorem update_static_address_follows_remote:
  "MatchString classify_re ''10.0.0.5'' \<and>
   Get (rd (start (node_config ''node1'' ''node1'' ''10.0.0.5'' []))) ''address'' = VStr ''10.0.0.5'' \<and>
   Get (rd (snd (resourceBigipLtmNodeUpdate
        (answering (Some (remote_node ''10.0.0.6'' []), None) None)
        (start (node_config ''node1'' ''node1'' ''10.0.0.5'' []))))) ''address'' = VStr ''10.0.0.6''"
  by code_simp

section \<open>Create of an FQDN node without an fqdn block\<close>

text \<open>
  C10. When the address does not match the classification pattern and no \<^verbatim>\<open>fqdn\<close> block is
  configured, the create step makes no call and leaves the error nil with the world as it
  was; create then sets the identifier to the name and is exactly the read of that world,
  so that \<^verbatim>\<open>GetNode\<close> is the first call to reach the remote.
\<close>

theorem create_fqdn_without_block:
  assumes "\<not> MatchString classify_re (a_address (args_of (rd w)))"
      and "fqdn (rd w) = []"
  shows "create_calls client (args_of (rd w)) w = (Ret None, w) \<and>
         resourceBigipLtmNodeCreate client w =
           resourceBigipLtmNodeRead client (w\<lparr>rd := SetId (rd w) (a_name (args_of (rd w)))\<rparr>) \<and>
         map fst (drop (length (trace w)) (trace (snd (resourceBigipLtmNodeCreate client w)))) =
           [GetNodeCall (a_name (args_of (rd w)))]"
proof -
  let ?w1 = "w\<lparr>rd := SetId (rd w) (a_name (args_of (rd w)))\<rparr>"
  from assms have c: "create_calls client (args_of (rd w)) w = (Ret None, w)"
    by (rule create_calls_no_block)
  then have e: "resourceBigipLtmNodeCreate client w = resourceBigipLtmNodeRead client ?w1"
    by (simp add: resourceBigipLtmNodeCreate_def create_args_eq)
  from read_calls [of ?w1 client]
  have "map fst (drop (length (trace w)) (trace (snd (resourceBigipLtmNodeCreate client w)))) =
           [GetNodeCall (a_name (args_of (rd w)))]"
    by (simp add: e SetId_def)
  with c e show ?thesis by blast
qed

text \<open>The FQDN node node.example.com without a block, against a remote that has the node.\<close>

theorem create_fqdn_without_block_witness:
  "\<not> MatchString classify_re
       (a_address (args_of (rd (start (node_config [] ''node1'' ''node.example.com'' []))))) \<and>
   fqdn (rd (start (node_config [] ''node1'' ''node.example.com'' []))) = [] \<and>
   map fst (trace (snd (resourceBigipLtmNodeCreate
        (answering (Some (remote_node [] ''node.example.com''), None) None)
        (start (node_config [] ''node1'' ''node.example.com'' []))))) = [GetNodeCall ''node1''] \<and>
   fst (resourceBigipLtmNodeCreate
        (answering (Some (remote_node [] ''node.example.com''), None) None)
        (start (node_config [] ''node1'' ''node.example.com'' []))) = Ret None \<and>
   Id' (rd (snd (resourceBigipLtmNodeCreate
        (answering (Some (remote_node [] ''node.example.com''), None) None)
        (start (node_config [] ''node1'' ''node.example.com'' []))))) = ''node1''"
proof -
  let ?c = "answering (Some (remote_node [] ''node.example.com''), None) None"
  let ?w = "start (node_config [] ''node1'' ''node.example.com'' [])"
  have h1: "\<not> MatchString classify_re (a_address (args_of (rd ?w)))"
    by code_simp
  have h2: "fqdn (rd ?w) = []"
    by (simp add: start_def node_config_def)
  have i: "a_name (args_of (rd ?w)) = ''node1''" "trace ?w = []"
    by (simp_all add: start_def node_config_def args_of_def)
  from create_fqdn_without_block [OF h1 h2, of ?c]
  have e: "resourceBigipLtmNodeCreate ?c ?w =
             resourceBigipLtmNodeRead ?c (?w\<lparr>rd := SetId (rd ?w) (a_name (args_of (rd ?w)))\<rparr>)"
    and "map fst (drop (length (trace ?w)) (trace (snd (resourceBigipLtmNodeCreate ?c ?w)))) =
           [GetNodeCall (a_name (args_of (rd ?w)))]"
    by blast+
  then have 1: "map fst (trace (snd (resourceBigipLtmNodeCreate ?c ?w))) = [GetNodeCall ''node1'']"
    by (simp only: i list.size drop_0)
  have "fst (resourceBigipLtmNodeRead ?c (?w\<lparr>rd := SetId (rd ?w) (a_name (args_of (rd ?w)))\<rparr>)) =
          Ret None"
    and "Id' (rd (snd (resourceBigipLtmNodeRead ?c
           (?w\<lparr>rd := SetId (rd ?w) (a_name (args_of (rd ?w)))\<rparr>)))) = ''node1''"
    by code_simp+
  then have 2: "fst (resourceBigipLtmNodeCreate ?c ?w) = Ret None"
    and 3: "Id' (rd (snd (resourceBigipLtmNodeCreate ?c ?w))) = ''node1''"
    by (simp_all only: e)
  from h1 h2 1 2 3 show ?thesis by blast
qed

end
